theory Spec2Isabelle
  imports Main
begin

section \<open>Data model (types.ts)\<close>

text \<open>
  The chat client keeps an ordered list of sessions; every session owns an ordered
  list of messages. Identifiers are strings (UUIDs), time stamps are the integer
  milliseconds of \<^verbatim>\<open>Date.now()\<close>. Optional fields (\<^verbatim>\<open>file?\<close>, \<^verbatim>\<open>status?\<close>,
  \<^verbatim>\<open>groundingChunks?\<close>) are options. Field names carry a prefix because the
  interfaces of the repository share them (\<^verbatim>\<open>id\<close>, \<^verbatim>\<open>messages\<close>, ...).
\<close>

datatype Role = User | Model

datatype Status = Pending | Error | Complete

record ChatFile =
  f_name :: string
  f_type :: string
  f_dataUrl :: string

record GroundingChunk =
  g_uri :: string
  g_title :: string

record ChatMessage =
  m_id :: string
  m_role :: Role
  m_text :: string
  m_file :: "ChatFile option"
  m_timestamp :: int
  m_status :: "Status option"
  m_groundingChunks :: "GroundingChunk list option"

text \<open>\<^verbatim>\<open>Content\<close> comes from the remote API's library; the client passes it on unread.\<close>

type_synonym Content = string

record ChatSession =
  s_id :: string
  s_title :: string
  s_messages :: "ChatMessage list"
  s_history :: "Content list"
  s_createdAt :: int

section \<open>The session store used by the orchestrator\<close>

text \<open>
  The argument of \<^verbatim>\<open>updateChat\<close>: an object with any of the fields \<^verbatim>\<open>title\<close>,
  \<^verbatim>\<open>history\<close> and \<^verbatim>\<open>messages\<close>, the last one a function of the previous message list.
\<close>

record ChatPatch =
  p_title :: "string option"
  p_history :: "Content list option"
  p_messages :: "(ChatMessage list \<Rightarrow> ChatMessage list) option"

definition messagesPatch :: "(ChatMessage list \<Rightarrow> ChatMessage list) \<Rightarrow> ChatPatch" where
  "messagesPatch f = \<lparr>p_title = None, p_history = None, p_messages = Some f\<rparr>"

definition applyPatch :: "ChatPatch \<Rightarrow> ChatSession \<Rightarrow> ChatSession" where
  "applyPatch p s =
     s\<lparr>s_title := (case p_title p of None \<Rightarrow> s_title s | Some t \<Rightarrow> t),
       s_history := (case p_history p of None \<Rightarrow> s_history s | Some h \<Rightarrow> h),
       s_messages := (case p_messages p of None \<Rightarrow> s_messages s | Some f \<Rightarrow> f (s_messages s))\<rparr>"

text \<open>
  Modelled from the spec: the hook that exports \<^verbatim>\<open>updateChat\<close>, \<^verbatim>\<open>currentChatId\<close> and
  \<^verbatim>\<open>currentSession\<close> to the orchestrator is not among the sources (the hook under
  \<^verbatim>\<open>src/hooks\<close> exports \<^verbatim>\<open>addMessage\<close> and no \<^verbatim>\<open>updateChat\<close>). The spec gives the
  contract \<^verbatim>\<open>update(id, partialOrFn)\<close>: a direct field patch or a function transforming
  the previous message list of the session with that id.
\<close>

definition updateChat :: "string \<Rightarrow> ChatPatch \<Rightarrow> ChatSession list \<Rightarrow> ChatSession list" where
  "updateChat cid p sessions = map (\<lambda>s. if s_id s = cid then applyPatch p s else s) sessions"

section \<open>The send orchestrator (App component with handleSendMessage)\<close>

record AppState =
  sessions :: "ChatSession list"
  currentChatId :: "string option"
  isSending :: bool
  input :: string
  inputFile :: "ChatFile option"

text \<open>
  Modelled from the spec: \<^verbatim>\<open>currentSession\<close> is exported by the same missing hook;
  one session is current at a time, the one whose id is \<^verbatim>\<open>currentChatId\<close>.
\<close>

definition currentSession :: "AppState \<Rightarrow> ChatSession option" where
  "currentSession st =
     (case currentChatId st of
        None \<Rightarrow> None
      | Some cid \<Rightarrow> find (\<lambda>s. s_id s = cid) (sessions st))"

text \<open>What an observer reads: the message list of the session with a given id.\<close>

definition sessionMessages :: "string \<Rightarrow> AppState \<Rightarrow> ChatMessage list" where
  "sessionMessages cid st =
     (case find (\<lambda>s. s_id s = cid) (sessions st) of None \<Rightarrow> [] | Some s \<Rightarrow> s_messages s)"

text \<open>
  \<^verbatim>\<open>String.prototype.trim\<close> removes white space and line terminators at both ends.
  A \<^typ>\<open>char\<close> is a code unit below 256: TAB, LF, VT, FF, CR, SPACE and NBSP.
\<close>

definition isWhiteSpace :: "char \<Rightarrow> bool" where
  "isWhiteSpace c = (of_char c \<in> {9, 10, 11, 12, 13, 32, 160 :: nat})"

definition trim :: "string \<Rightarrow> string" where
  "trim s = rev (dropWhile isWhiteSpace (rev (dropWhile isWhiteSpace s)))"

text \<open>A string is truthy when it is not empty; \<^verbatim>\<open>null\<close> and \<^verbatim>\<open>undefined\<close> are falsy.\<close>

definition truthy :: "string option \<Rightarrow> bool" where
  "truthy v = (case v of None \<Rightarrow> False | Some s \<Rightarrow> s \<noteq> [])"

text \<open>
  The values a send draws from its environment: the results of the calls of
  \<^verbatim>\<open>uuidv4()\<close> and \<^verbatim>\<open>Date.now()\<close>, in the order of the source.
\<close>

record SendEnv =
  uuid_user :: string
  now_user :: int
  uuid_model :: string
  now_model :: int
  now_done :: int

text \<open>What the closures of one running send hold on to.\<close>

record SendCtx =
  ctx_chatId :: string
  ctx_userMessageId :: string
  ctx_modelMessageId :: string

text \<open>
  The remote client is a black box. One call either fails in \<^verbatim>\<open>startChat\<close>, or fails
  in \<^verbatim>\<open>sendMessage\<close> after delivering some chunks, or delivers its chunks and
  resolves with the final text, the citations and the chat's new history.
\<close>

datatype RemoteOutcome =
    StartChatRejects
  | SendMessageRejects "string list"
  | SendMessageResolves "string list" string "GroundingChunk list option" "Content list"

text \<open>
  The guard in the first line of \<^verbatim>\<open>handleSendMessage\<close>: true when the handler
  returns at once.
\<close>

definition sendRejected :: "string \<Rightarrow> ChatFile option \<Rightarrow> AppState \<Rightarrow> bool" where
  "sendRejected messageText messageFile st =
     ((trim messageText = [] \<and> messageFile = None)
      \<or> \<not> truthy (currentChatId st) \<or> currentSession st = None)"

text \<open>
  \<^verbatim>\<open>handleSendMessage\<close> up to its first \<^verbatim>\<open>await\<close>: the guard, the in-flight flag,
  the two messages, the removal of the retried message, the append, the reset of the
  composer. It returns the context of the running send, or \<open>None\<close> when the guard
  returned.
\<close>

definition userMessageId :: "string option \<Rightarrow> SendEnv \<Rightarrow> string" where
  "userMessageId messageIdToRetry env =
     (if truthy messageIdToRetry then the messageIdToRetry else uuid_user env)"

definition userMessage :: "string \<Rightarrow> ChatFile option \<Rightarrow> string option \<Rightarrow> SendEnv \<Rightarrow> ChatMessage" where
  "userMessage messageText messageFile messageIdToRetry env =
     \<lparr>m_id = userMessageId messageIdToRetry env, m_role = User, m_text = messageText,
      m_file = messageFile, m_timestamp = now_user env,
      m_status = Some Complete, m_groundingChunks = None\<rparr>"

definition modelMessageId :: "SendEnv \<Rightarrow> string" where
  "modelMessageId env = uuid_model env"

definition modelMessage :: "SendEnv \<Rightarrow> ChatMessage" where
  "modelMessage env =
     \<lparr>m_id = modelMessageId env, m_role = Model, m_text = [],
      m_file = None, m_timestamp = now_model env,
      m_status = Some Pending, m_groundingChunks = None\<rparr>"

definition handleSendMessage_begin ::
  "string \<Rightarrow> ChatFile option \<Rightarrow> string option \<Rightarrow> SendEnv \<Rightarrow> AppState \<Rightarrow> SendCtx option \<times> AppState" where
  "handleSendMessage_begin messageText messageFile messageIdToRetry env st =
     (if sendRejected messageText messageFile st then (None, st)
      else
        let cid = the (currentChatId st);
            st1 = st\<lparr>isSending := True\<rparr>;
            st2 = (if truthy messageIdToRetry
                   then st1\<lparr>sessions := updateChat cid
                           (messagesPatch (\<lambda>prev. filter (\<lambda>m. m_id m \<noteq> the messageIdToRetry) prev))
                           (sessions st1)\<rparr>
                   else st1);
            st3 = st2\<lparr>sessions := updateChat cid
                           (messagesPatch (\<lambda>prev. prev @
                              [userMessage messageText messageFile messageIdToRetry env,
                               modelMessage env]))
                           (sessions st2)\<rparr>;
            st4 = st3\<lparr>input := [], inputFile := None\<rparr>
        in (Some \<lparr>ctx_chatId = cid,
                   ctx_userMessageId = userMessageId messageIdToRetry env,
                   ctx_modelMessageId = modelMessageId env\<rparr>, st4))"

text \<open>
  What the start of a send keeps of the previous message list: all of it, or, on a
  retry, the messages that do not have the retried id.
\<close>

definition keptOnSend :: "string option \<Rightarrow> ChatMessage list \<Rightarrow> ChatMessage list" where
  "keptOnSend messageIdToRetry prev =
     (if truthy messageIdToRetry then filter (\<lambda>m. m_id m \<noteq> the messageIdToRetry) prev else prev)"

text \<open>The callback handed to \<^verbatim>\<open>sendMessage\<close>, run once for every chunk.\<close>

definition handleStreamChunk :: "SendCtx \<Rightarrow> string \<Rightarrow> AppState \<Rightarrow> AppState" where
  "handleStreamChunk ctx text st =
     st\<lparr>sessions := updateChat (ctx_chatId ctx)
          (messagesPatch (\<lambda>prev. map (\<lambda>msg.
             if m_id msg = ctx_modelMessageId ctx
             then msg\<lparr>m_text := text, m_status := Some Pending\<rparr>
             else msg) prev))
          (sessions st)\<rparr>"

text \<open>The update after \<^verbatim>\<open>sendMessage\<close> has resolved.\<close>

definition handleSendMessage_resolved ::
  "SendCtx \<Rightarrow> string \<Rightarrow> GroundingChunk list option \<Rightarrow> Content list \<Rightarrow> int \<Rightarrow> AppState \<Rightarrow> AppState" where
  "handleSendMessage_resolved ctx finalResponseText groundingChunks history now st =
     st\<lparr>sessions := updateChat (ctx_chatId ctx)
          \<lparr>p_title = None, p_history = Some history,
           p_messages = Some (\<lambda>prev. map (\<lambda>msg.
             if m_id msg = ctx_modelMessageId ctx
             then msg\<lparr>m_text := finalResponseText, m_status := Some Complete,
                      m_timestamp := now, m_groundingChunks := groundingChunks\<rparr>
             else msg) prev)\<rparr>
          (sessions st)\<rparr>"

text \<open>The \<^verbatim>\<open>catch\<close> block.\<close>

definition handleSendMessage_catch :: "SendCtx \<Rightarrow> AppState \<Rightarrow> AppState" where
  "handleSendMessage_catch ctx st =
     st\<lparr>sessions := updateChat (ctx_chatId ctx)
          (messagesPatch (\<lambda>prev. filter (\<lambda>m. m_id m \<noteq> ctx_modelMessageId ctx)
             (map (\<lambda>msg. if m_id msg = ctx_userMessageId ctx
                          then msg\<lparr>m_status := Some Error\<rparr> else msg) prev)))
          (sessions st)\<rparr>"

text \<open>The \<^verbatim>\<open>finally\<close> block.\<close>

definition handleSendMessage_finally :: "AppState \<Rightarrow> AppState" where
  "handleSendMessage_finally st = st\<lparr>isSending := False\<rparr>"

text \<open>
  The handler is an \<^verbatim>\<open>async\<close> function: at \<^verbatim>\<open>await startChat(...)\<close> and at
  \<^verbatim>\<open>await sendMessage(...)\<close> it is suspended, and until the remote call delivers a
  chunk or settles, the handlers of other events run. What they do to the state is not
  up to this call: \<open>others k\<close> is the change they make during the call's suspension
  number \<open>k\<close>, number 0 being the one between the start of the call and the first chunk
  (or the end of the remote call, when there is no chunk), number \<open>k\<close> the one after the
  \<open>k\<close>-th chunk. Each piece of the handler between two suspensions runs in one go.
\<close>

type_synonym Interleaving = "nat \<Rightarrow> AppState \<Rightarrow> AppState"

text \<open>No other handler runs while the call is suspended.\<close>

definition uninterrupted :: Interleaving where
  "uninterrupted k st = st"

text \<open>The chunks of the stream, each followed by a suspension of the call.\<close>

fun deliverChunks :: "SendCtx \<Rightarrow> Interleaving \<Rightarrow> nat \<Rightarrow> string list \<Rightarrow> AppState \<Rightarrow> AppState" where
  "deliverChunks ctx others k [] st = st"
| "deliverChunks ctx others k (text # chunks) st =
     deliverChunks ctx others (Suc k) chunks (others (Suc k) (handleStreamChunk ctx text st))"

text \<open>
  The part of the handler after its first \<^verbatim>\<open>await\<close>: the suspensions and the chunks,
  then the final update or the \<^verbatim>\<open>catch\<close> block, then the \<^verbatim>\<open>finally\<close> block.
\<close>

definition handleSendMessage_settle ::
  "SendCtx \<Rightarrow> SendEnv \<Rightarrow> RemoteOutcome \<Rightarrow> Interleaving \<Rightarrow> AppState \<Rightarrow> AppState" where
  "handleSendMessage_settle ctx env remote others st =
     handleSendMessage_finally
       (case remote of
          StartChatRejects \<Rightarrow> handleSendMessage_catch ctx (others 0 st)
        | SendMessageRejects chunks \<Rightarrow>
            handleSendMessage_catch ctx (deliverChunks ctx others 0 chunks (others 0 st))
        | SendMessageResolves chunks finalResponseText groundingChunks history \<Rightarrow>
            handleSendMessage_resolved ctx finalResponseText groundingChunks history (now_done env)
              (deliverChunks ctx others 0 chunks (others 0 st)))"

text \<open>
  One whole call of \<^verbatim>\<open>handleSendMessage\<close>, from the event that starts it to the end of
  its \<^verbatim>\<open>finally\<close> block, with what the other handlers do in between.
\<close>

definition handleSendMessage ::
  "string \<Rightarrow> ChatFile option \<Rightarrow> string option \<Rightarrow> SendEnv \<Rightarrow> RemoteOutcome \<Rightarrow> Interleaving
     \<Rightarrow> AppState \<Rightarrow> AppState" where
  "handleSendMessage messageText messageFile messageIdToRetry env remote others st =
     (case handleSendMessage_begin messageText messageFile messageIdToRetry env st of
        (None, st') \<Rightarrow> st'
      | (Some ctx, st') \<Rightarrow> handleSendMessage_settle ctx env remote others st')"

text \<open>\<^verbatim>\<open>handleSuggestedQuestionClick\<close> sends the question with no file and no retry id.\<close>

definition handleSuggestedQuestionClick_begin ::
  "string \<Rightarrow> SendEnv \<Rightarrow> AppState \<Rightarrow> SendCtx option \<times> AppState" where
  "handleSuggestedQuestionClick_begin question env st =
     handleSendMessage_begin question None None env st"

text \<open>
  \<^verbatim>\<open>handleSendFromCamera\<close> sends the prompt with the captured picture as its file,
  named after the time of the capture. (It also closes the camera dialog, which is not
  part of the state here.)
\<close>

definition handleSendFromCamera_begin ::
  "string \<Rightarrow> string \<Rightarrow> string \<Rightarrow> SendEnv \<Rightarrow> AppState \<Rightarrow> SendCtx option \<times> AppState" where
  "handleSendFromCamera_begin dataUrl prompt isoTime env st =
     handleSendMessage_begin prompt
       (Some \<lparr>f_name = ''capture_'' @ isoTime @ ''.jpg'', f_type = ''image/jpeg'',
               f_dataUrl = dataUrl\<rparr>)
       None env st"

text \<open>
  \<^verbatim>\<open>handleRetry\<close> looks the message up in the current session and, when it is there,
  sends its text and file again under its own id.
\<close>

definition handleRetry_begin :: "string \<Rightarrow> SendEnv \<Rightarrow> AppState \<Rightarrow> SendCtx option \<times> AppState" where
  "handleRetry_begin messageId env st =
     (case currentSession st of
        None \<Rightarrow> (None, st)
      | Some cs \<Rightarrow>
          (case find (\<lambda>m. m_id m = messageId) (s_messages cs) of
             None \<Rightarrow> (None, st)
           | Some messageToRetry \<Rightarrow>
               handleSendMessage_begin (m_text messageToRetry) (m_file messageToRetry)
                 (Some messageId) env st))"

definition handleRetry ::
  "string \<Rightarrow> SendEnv \<Rightarrow> RemoteOutcome \<Rightarrow> Interleaving \<Rightarrow> AppState \<Rightarrow> AppState" where
  "handleRetry messageId env remote others st =
     (case handleRetry_begin messageId env st of
        (None, st') \<Rightarrow> st'
      | (Some ctx, st') \<Rightarrow> handleSendMessage_settle ctx env remote others st')"

text \<open>
  The callback of the filter in \<^verbatim>\<open>handleRegenerate\<close>: a message stays unless it is a
  model message with the id of the session's last message.
\<close>

definition keptOnRegenerate :: "string \<Rightarrow> ChatMessage \<Rightarrow> bool" where
  "keptOnRegenerate lastId m = (m_role m \<noteq> Model \<or> m_id m \<noteq> lastId)"

text \<open>
  \<^verbatim>\<open>handleRegenerate\<close>: nothing without a current session or while a send is in
  flight; otherwise it finds the last user message, filters the message list and calls
  \<^verbatim>\<open>handleSendMessage\<close> with that message's text and file (and no retry id).
\<close>

definition handleRegenerate_begin :: "SendEnv \<Rightarrow> AppState \<Rightarrow> SendCtx option \<times> AppState" where
  "handleRegenerate_begin env st =
     (case currentSession st of
        None \<Rightarrow> (None, st)
      | Some cs \<Rightarrow>
          if isSending st then (None, st)
          else
            (case find (\<lambda>m. m_role m = User) (rev (s_messages cs)) of
               None \<Rightarrow> (None, st)
             | Some lastUserMessage \<Rightarrow>
                 let st1 = st\<lparr>sessions := updateChat (s_id cs)
                             (messagesPatch (\<lambda>prev.
                                filter (keptOnRegenerate (m_id (last (s_messages cs)))) prev))
                             (sessions st)\<rparr>
                 in handleSendMessage_begin (m_text lastUserMessage) (m_file lastUserMessage)
                      None env st1))"

definition handleRegenerate ::
  "SendEnv \<Rightarrow> RemoteOutcome \<Rightarrow> Interleaving \<Rightarrow> AppState \<Rightarrow> AppState" where
  "handleRegenerate env remote others st =
     (case handleRegenerate_begin env st of
        (None, st') \<Rightarrow> st'
      | (Some ctx, st') \<Rightarrow> handleSendMessage_settle ctx env remote others st')"

subsection \<open>Runs that honour the in-flight flag\<close>

text \<open>
  The ids of all messages of all sessions, and what is expected of \<^verbatim>\<open>uuidv4()\<close>: the
  model message's id is new, and is not the user message's.
\<close>

definition allMessageIds :: "AppState \<Rightarrow> string set" where
  "allMessageIds st = (\<Union>s \<in> set (sessions st). m_id ` set (s_messages s))"

definition freshModelId :: "string option \<Rightarrow> SendEnv \<Rightarrow> AppState \<Rightarrow> bool" where
  "freshModelId messageIdToRetry env st =
     (modelMessageId env \<notin> allMessageIds st
      \<and> modelMessageId env \<noteq> userMessageId messageIdToRetry env)"

definition pendingCount :: "ChatSession \<Rightarrow> nat" where
  "pendingCount s = length (filter (\<lambda>m. m_status m = Some Pending) (s_messages s))"

text \<open>
  The states the orchestrator reaches when a send, a retry or a regenerate starts only
  while no send is in flight, together with the context of the send in flight. The
  steps are the handler's own: its start, a chunk, and the two ways it settles.
\<close>

inductive singleFlight :: "SendCtx option \<Rightarrow> AppState \<Rightarrow> bool" where
  idle: "\<lbrakk>\<forall>s \<in> set (sessions st). pendingCount s = 0; \<not> isSending st\<rbrakk>
         \<Longrightarrow> singleFlight None st"
| send: "\<lbrakk>singleFlight None st;
          handleSendMessage_begin messageText messageFile messageIdToRetry env st = (Some ctx, st');
          freshModelId messageIdToRetry env st\<rbrakk>
         \<Longrightarrow> singleFlight (Some ctx) st'"
| regenerate: "\<lbrakk>singleFlight None st;
          handleRegenerate_begin env st = (Some ctx, st');
          freshModelId None env st\<rbrakk>
         \<Longrightarrow> singleFlight (Some ctx) st'"
| chunk: "singleFlight (Some ctx) st \<Longrightarrow> singleFlight (Some ctx) (handleStreamChunk ctx t st)"
| resolved: "singleFlight (Some ctx) st \<Longrightarrow>
     singleFlight None
       (handleSendMessage_finally (handleSendMessage_resolved ctx final g h now st))"
| failed: "singleFlight (Some ctx) st \<Longrightarrow>
     singleFlight None (handleSendMessage_finally (handleSendMessage_catch ctx st))"

text \<open>
  What holds along such a run: with no send in flight no message is pending; with one in
  flight, a pending message has the placeholder's id and is in the send's session, and
  no session has two messages with that id.
\<close>

definition flightInvariant :: "SendCtx option \<Rightarrow> AppState \<Rightarrow> bool" where
  "flightInvariant c st =
     (case c of
        None \<Rightarrow> (\<forall>s \<in> set (sessions st). \<forall>m \<in> set (s_messages s). m_status m \<noteq> Some Pending)
                 \<and> \<not> isSending st
      | Some ctx \<Rightarrow>
          (\<forall>s \<in> set (sessions st).
             (\<forall>m \<in> set (s_messages s). m_status m = Some Pending \<longrightarrow>
                m_id m = ctx_modelMessageId ctx \<and> s_id s = ctx_chatId ctx)
             \<and> length (filter (\<lambda>m. m_id m = ctx_modelMessageId ctx) (s_messages s)) \<le> 1))"

section \<open>The earlier App component (App.tsx, handleSend)\<close>

text \<open>
  This version of the component has messages with a \<^verbatim>\<open>content\<close> and no status, keeps
  the remote chat handle in the session, and sends what the composer holds.
\<close>

type_synonym FileBlob = string

type_synonym Chat = string

record LegacyFile =
  lf_file :: FileBlob
  lf_preview :: string

record LegacyMessage =
  lm_id :: string
  lm_role :: Role
  lm_content :: string
  lm_timestamp :: int
  lm_file :: "LegacyFile option"

record LegacySession =
  ls_id :: string
  ls_messages :: "LegacyMessage list"
  ls_chat :: "Chat option"

record LegacyState =
  l_sessions :: "LegacySession list"
  l_currentChatId :: "string option"
  l_isSending :: bool
  l_input :: string
  l_file :: "LegacyFile option"

text \<open>
  Modelled from the spec: the hook of this version is not among the sources either. Its
  \<^verbatim>\<open>updateChat(id, messages, chat?)\<close> is the direct field patch of the store's
  \<^verbatim>\<open>update\<close>: it sets the message list of the session with that id, and the chat
  handle when one is given.
\<close>

definition legacyUpdateChat ::
  "string option \<Rightarrow> LegacyMessage list \<Rightarrow> Chat option \<Rightarrow> LegacySession list \<Rightarrow> LegacySession list" where
  "legacyUpdateChat cid msgs chat ss =
     map (\<lambda>s. if Some (ls_id s) = cid
               then s\<lparr>ls_messages := msgs,
                      ls_chat := (case chat of None \<Rightarrow> ls_chat s | Some c \<Rightarrow> Some c)\<rparr>
               else s) ss"

text \<open>Modelled from the spec: the current session of this version, as above.\<close>

definition legacyCurrentSession :: "LegacyState \<Rightarrow> LegacySession option" where
  "legacyCurrentSession st =
     (case l_currentChatId st of
        None \<Rightarrow> None
      | Some cid \<Rightarrow> find (\<lambda>s. ls_id s = cid) (l_sessions st))"

definition legacyCurrentMessages :: "LegacyState \<Rightarrow> LegacyMessage list" where
  "legacyCurrentMessages st =
     (case legacyCurrentSession st of None \<Rightarrow> [] | Some s \<Rightarrow> ls_messages s)"

text \<open>
  The remote client as this version calls it: \<^verbatim>\<open>startChat()\<close> gives a chat handle or
  rejects (\<open>None\<close>), \<^verbatim>\<open>sendMessage\<close> gives the response text or rejects (\<open>None\<close>).
\<close>

record LegacyRemote =
  startChat_result :: "Chat option"
  sendMessage_result :: "string option"

record LegacyEnv =
  le_uuid_user :: string
  le_now_user :: int
  le_uuid_reply :: string
  le_now_reply :: int

definition errorText :: string where
  "errorText = ''Sorry, there was an error processing your request.''"

text \<open>\<^verbatim>\<open>handleSend\<close>, run to its end.\<close>

definition handleSend :: "LegacyEnv \<Rightarrow> LegacyRemote \<Rightarrow> LegacyState \<Rightarrow> LegacyState" where
  "handleSend env remote st =
     (if (trim (l_input st) = [] \<and> l_file st = None) \<or> l_isSending st then st
      else
        let userMessage = \<lparr>lm_id = le_uuid_user env, lm_role = User,
                           lm_content = trim (l_input st), lm_timestamp = le_now_user env,
                           lm_file = l_file st\<rparr>;
            cid = l_currentChatId st;
            st1 = st\<lparr>l_isSending := True, l_input := [], l_file := None\<rparr>;
            updatedMessages = legacyCurrentMessages st @ [userMessage];
            st2 = st1\<lparr>l_sessions := legacyUpdateChat cid updatedMessages None (l_sessions st1)\<rparr>;
            reply = (\<lambda>content. \<lparr>lm_id = le_uuid_reply env, lm_role = Model,
                           lm_content = content, lm_timestamp = le_now_reply env,
                           lm_file = None\<rparr>);
            failed = (\<lambda>s. s\<lparr>l_sessions := legacyUpdateChat cid
                              (updatedMessages @ [reply errorText]) None (l_sessions s)\<rparr>);
            sent = (\<lambda>chat s.
                      case sendMessage_result remote of
                        None \<Rightarrow> failed s
                      | Some response \<Rightarrow>
                          s\<lparr>l_sessions := legacyUpdateChat cid
                               (updatedMessages @ [reply response]) (Some chat) (l_sessions s)\<rparr>);
            st3 = (case (case legacyCurrentSession st of None \<Rightarrow> None | Some s \<Rightarrow> ls_chat s) of
                     Some chat \<Rightarrow> sent chat st2
                   | None \<Rightarrow>
                       (case startChat_result remote of
                          None \<Rightarrow> failed st2
                        | Some chat \<Rightarrow>
                            sent chat (st2\<lparr>l_sessions :=
                              legacyUpdateChat cid updatedMessages (Some chat) (l_sessions st2)\<rparr>)))
        in st3\<lparr>l_isSending := False\<rparr>)"

section \<open>The chat history hook (hooks/useChatHistory.ts)\<close>

text \<open>The hook has interfaces of its own: messages with a content, sessions with two time stamps.\<close>

datatype HistoryRole = HistoryUser | Assistant

record HistoryMessage =
  hm_id :: string
  hm_role :: HistoryRole
  hm_content :: string
  hm_timestamp :: int

record HistorySession =
  hs_id :: string
  hs_messages :: "HistoryMessage list"
  hs_createdAt :: int
  hs_updatedAt :: int

record HistoryState =
  h_sessions :: "HistorySession list"
  h_currentSessionId :: "string option"

text \<open>The argument of \<^verbatim>\<open>addMessage\<close>: a message without id and time stamp.\<close>

record MessageInput =
  mi_role :: HistoryRole
  mi_content :: string

text \<open>
  The updater \<^verbatim>\<open>addMessage\<close> hands to \<^verbatim>\<open>setSessions\<close>: a map over the previous list.
  Every session with the id gets the message appended and \<^verbatim>\<open>updatedAt\<close> set to
  \<^verbatim>\<open>Date.now()\<close>, read anew for each such session: \<open>clock k\<close> is the clock's k-th
  reading.
\<close>

fun appendToSessions ::
  "string \<Rightarrow> HistoryMessage \<Rightarrow> (nat \<Rightarrow> int) \<Rightarrow> nat \<Rightarrow> HistorySession list \<Rightarrow> HistorySession list" where
  "appendToSessions sessionId newMessage clock k [] = []"
| "appendToSessions sessionId newMessage clock k (session # rest) =
     (if hs_id session = sessionId
      then session\<lparr>hs_messages := hs_messages session @ [newMessage], hs_updatedAt := clock k\<rparr>
             # appendToSessions sessionId newMessage clock (Suc k) rest
      else session # appendToSessions sessionId newMessage clock k rest)"

text \<open>
  \<^verbatim>\<open>addMessage\<close>. The new id (built from the time and a random number) and the time
  stamp are drawn from the environment when the function is called.
\<close>

definition addMessage ::
  "string \<Rightarrow> MessageInput \<Rightarrow> string \<Rightarrow> int \<Rightarrow> (nat \<Rightarrow> int) \<Rightarrow> HistoryState \<Rightarrow> HistoryState" where
  "addMessage sessionId message newId now clock st =
     (let newMessage = \<lparr>hm_id = newId, hm_role = mi_role message,
                         hm_content = mi_content message, hm_timestamp = now\<rparr>
      in st\<lparr>h_sessions := appendToSessions sessionId newMessage clock 0 (h_sessions st)\<rparr>)"

subsection \<open>Persistence\<close>

datatype JsError = SecurityError | QuotaExceededError | SyntaxError | TypeError

text \<open>
  The browser's \<^verbatim>\<open>localStorage\<close>: its entries, whether reading it throws (storage
  disabled), and which writes it takes (the others throw, as a full store does).
\<close>

record LocalStorage =
  items :: "string \<Rightarrow> string option"
  readable :: bool
  accepts :: "string \<Rightarrow> string \<Rightarrow> bool"

definition getItem :: "LocalStorage \<Rightarrow> string \<Rightarrow> JsError + string option" where
  "getItem storage key = (if readable storage then Inr (items storage key) else Inl SecurityError)"

definition setItem :: "LocalStorage \<Rightarrow> string \<Rightarrow> string \<Rightarrow> JsError + LocalStorage" where
  "setItem storage key v =
     (if accepts storage key v then Inr (storage\<lparr>items := (items storage)(key \<mapsto> v)\<rparr>)
      else Inl QuotaExceededError)"

text \<open>
  The values of the runtime that \<^verbatim>\<open>JSON.parse\<close> can return and the hook can hold:
  \<^verbatim>\<open>null\<close>, a boolean, a number, a string, an array, or an object with its properties
  (each name once). Nothing in the hook computes with a number, so the type of the
  numbers is left open; of a string, only whether it is empty and whether it equals
  another one is ever asked.
\<close>

datatype 'num JsValue =
    JsNull
  | JsBoolean bool
  | JsNumber 'num
  | JsString string
  | JsArray "'num JsValue list"
  | JsObject "(string \<times> 'num JsValue) list"

text \<open>
  \<^verbatim>\<open>JSON.parse\<close> and \<^verbatim>\<open>JSON.stringify\<close> belong to the language's runtime. The two
  effects take them as a parameter, so that what is proved of the effects holds whatever
  the runtime does. \<^verbatim>\<open>JSON.parse\<close> throws or returns a value, of any shape: its
  result type is \<^verbatim>\<open>any\<close>.
\<close>

record 'num Json =
  parse :: "string \<Rightarrow> JsError + 'num JsValue"
  stringify :: "'num JsValue \<Rightarrow> JsError + string"

definition STORAGE_KEY :: string where
  "STORAGE_KEY = ''chat_history''"

definition tryCatch :: "JsError + 'a \<Rightarrow> (JsError \<Rightarrow> JsError + 'a) \<Rightarrow> JsError + 'a" where
  "tryCatch body handler = (case body of Inl error \<Rightarrow> handler error | Inr v \<Rightarrow> Inr v)"

text \<open>
  The hook's state as the runtime holds it. \<^verbatim>\<open>sessions\<close> is declared a
  \<^verbatim>\<open>ChatSession[]\<close>, and the hook's own updates keep it one (\<^verbatim>\<open>addMessage\<close> above is
  modelled on that type); but the load effect puts there what \<^verbatim>\<open>JSON.parse\<close> returned,
  and no line of the hook looks at the shape of that value. So the effects, and the
  function that reads the sessions, are modelled on the values of the runtime.
\<close>

record 'num StoreState =
  st_sessions :: "'num JsValue"
  st_currentSessionId :: "string option"

definition initialStoreState :: "'num StoreState" where
  "initialStoreState = \<lparr>st_sessions = JsArray [], st_currentSessionId = None\<rparr>"

text \<open>
  The effect that loads the sessions on mount. The handler of its \<^verbatim>\<open>catch\<close> logs the
  error and returns.
\<close>

definition loadEffect :: "'num Json \<Rightarrow> LocalStorage \<Rightarrow> 'num StoreState \<Rightarrow> JsError + 'num StoreState" where
  "loadEffect JSON storage st =
     tryCatch
       (case getItem storage STORAGE_KEY of
          Inl error \<Rightarrow> Inl error
        | Inr stored \<Rightarrow>
            if truthy stored
            then (case parse JSON (the stored) of
                    Inl error \<Rightarrow> Inl error
                  | Inr parsed \<Rightarrow> Inr (st\<lparr>st_sessions := parsed\<rparr>))
            else Inr st)
       (\<lambda>error. Inr st)"

text \<open>The effect that saves the sessions whenever they change.\<close>

definition saveEffect ::
  "'num Json \<Rightarrow> 'num StoreState \<times> LocalStorage \<Rightarrow> JsError + 'num StoreState \<times> LocalStorage" where
  "saveEffect JSON w =
     (case w of (st, storage) \<Rightarrow>
        tryCatch
          (case stringify JSON (st_sessions st) of
             Inl error \<Rightarrow> Inl error
           | Inr text \<Rightarrow>
               (case setItem storage STORAGE_KEY text of
                  Inl error \<Rightarrow> Inl error
                | Inr storage' \<Rightarrow> Inr (st, storage')))
          (\<lambda>error. Inr (st, storage)))"

text \<open>
  \<^verbatim>\<open>session.id\<close>: reading a property of \<^verbatim>\<open>null\<close> throws a TypeError; an object
  gives the property's value, or \<^verbatim>\<open>undefined\<close> (here \<open>None\<close>) when it has none of that
  name; a boolean, a number, a string and an array have no property \<^verbatim>\<open>id\<close>.
\<close>

definition idOf :: "'num JsValue \<Rightarrow> JsError + 'num JsValue option" where
  "idOf session =
     (case session of
        JsNull \<Rightarrow> Inl TypeError
      | JsObject properties \<Rightarrow> Inr (map_of properties ''id'')
      | _ \<Rightarrow> Inr None)"

text \<open>
  \<^verbatim>\<open>Array.prototype.find\<close> with the callback \<^verbatim>\<open>session => session.id === sessionId\<close>:
  the first element whose \<^verbatim>\<open>id\<close> is the string \<^verbatim>\<open>sessionId\<close>, or \<^verbatim>\<open>undefined\<close>.
\<close>

fun findSession :: "string \<Rightarrow> 'num JsValue list \<Rightarrow> JsError + 'num JsValue option" where
  "findSession sessionId [] = Inr None"
| "findSession sessionId (session # rest) =
     (case idOf session of
        Inl error \<Rightarrow> Inl error
      | Inr v \<Rightarrow>
          if v = Some (JsString sessionId) then Inr (Some session)
          else findSession sessionId rest)"

text \<open>
  \<^verbatim>\<open>getSession\<close> calls \<^verbatim>\<open>sessions.find(...)\<close>. Only an array has the method: on
  \<^verbatim>\<open>null\<close> the property access throws, on any other value \<^verbatim>\<open>find\<close> is not a
  function, and the call throws a TypeError as well.
\<close>

definition getSession :: "string \<Rightarrow> 'num StoreState \<Rightarrow> JsError + 'num JsValue option" where
  "getSession sessionId st =
     (case st_sessions st of
        JsArray elements \<Rightarrow> findSession sessionId elements
      | _ \<Rightarrow> Inl TypeError)"

subsection \<open>Failures\<close>

text \<open>
  A load fails when the storage cannot be read, has no entry or an empty one under the
  key, or has an entry that \<^verbatim>\<open>JSON.parse\<close> rejects; a save fails when
  \<^verbatim>\<open>JSON.stringify\<close> or \<^verbatim>\<open>setItem\<close> throws.
\<close>

definition loadFails :: "'num Json \<Rightarrow> LocalStorage \<Rightarrow> bool" where
  "loadFails JSON storage =
     (case getItem storage STORAGE_KEY of
        Inl error \<Rightarrow> True
      | Inr None \<Rightarrow> True
      | Inr (Some stored) \<Rightarrow> stored = [] \<or> isl (parse JSON stored))"

definition saveFails :: "'num Json \<Rightarrow> 'num StoreState \<Rightarrow> LocalStorage \<Rightarrow> bool" where
  "saveFails JSON st storage =
     (case stringify JSON (st_sessions st) of
        Inl error \<Rightarrow> True
      | Inr text \<Rightarrow> isl (setItem storage STORAGE_KEY text))"

section \<open>Scenarios\<close>

text \<open>The states and environments of the scenarios the properties are tried on.\<close>

definition emptySession :: "string \<Rightarrow> ChatSession" where
  "emptySession cid =
     \<lparr>s_id = cid, s_title = ''New chat'', s_messages = [], s_history = [], s_createdAt = 0\<rparr>"

definition idleState :: AppState where
  "idleState = \<lparr>sessions = [emptySession ''c1'', emptySession ''c2''],
                 currentChatId = Some ''c1'', isSending = False,
                 input = ''Muraho'', inputFile = None\<rparr>"

definition firstEnv :: SendEnv where
  "firstEnv = \<lparr>uuid_user = ''u1'', now_user = 10, uuid_model = ''m1'', now_model = 11,
                now_done = 15\<rparr>"

definition secondEnv :: SendEnv where
  "secondEnv = \<lparr>uuid_user = ''u2'', now_user = 20, uuid_model = ''m2'', now_model = 21,
                 now_done = 25\<rparr>"

definition firstCtx :: SendCtx where
  "firstCtx = \<lparr>ctx_chatId = ''c1'', ctx_userMessageId = ''u1'', ctx_modelMessageId = ''m1''\<rparr>"

text \<open>The state with the first send (the text Muraho, no file) in flight.\<close>

definition sendingState :: AppState where
  "sendingState = snd (handleSendMessage_begin ''Muraho'' None None firstEnv idleState)"

text \<open>The state after the first send has failed, and the earlier component's idle state.\<close>

definition failedState :: AppState where
  "failedState =
     handleSendMessage ''Muraho'' None None firstEnv StartChatRejects uninterrupted idleState"

definition legacyIdleState :: LegacyState where
  "legacyIdleState =
     \<lparr>l_sessions = [\<lparr>ls_id = ''c1'', ls_messages = [], ls_chat = None\<rparr>],
      l_currentChatId = Some ''c1'', l_isSending = False, l_input = ''Muraho'', l_file = None\<rparr>"

definition legacyEnv :: LegacyEnv where
  "legacyEnv = \<lparr>le_uuid_user = ''u1'', le_now_user = 10, le_uuid_reply = ''m1'', le_now_reply = 15\<rparr>"

definition rejectingRemote :: LegacyRemote where
  "rejectingRemote = \<lparr>startChat_result = Some ''chat'', sendMessage_result = None\<rparr>"

text \<open>The state after the first send has been answered.\<close>

definition answeredState :: AppState where
  "answeredState =
     handleSendMessage ''Muraho'' None None firstEnv
       (SendMessageResolves [''Ye''] ''Yego'' None [''turn 1'']) uninterrupted idleState"

text \<open>
  The state after the first send has failed and a second one has been answered, and the
  environment of a third send.
\<close>

definition followedState :: AppState where
  "followedState =
     handleSendMessage ''Amakuru?'' None None secondEnv
       (SendMessageResolves [] ''Ni meza'' None [''turn 1'']) uninterrupted failedState"

definition thirdEnv :: SendEnv where
  "thirdEnv = \<lparr>uuid_user = ''u3'', now_user = 30, uuid_model = ''m3'', now_model = 31,
                now_done = 35\<rparr>"

text \<open>
  What the other handlers do when a picture is sent from the camera dialog during the
  first suspension of a call, and nothing happens during the later ones.
\<close>

definition cameraSendBetween :: Interleaving where
  "cameraSendBetween k st =
     (if k = 0
      then snd (handleSendFromCamera_begin ''data:image/jpeg;base64,AAAA'' []
                  ''2026-01-01T00:00:00.000Z'' secondEnv st)
      else st)"

text \<open>A history with two sessions.\<close>

definition twoSessions :: HistoryState where
  "twoSessions =
     \<lparr>h_sessions =
        [\<lparr>hs_id = ''s1'', hs_messages = [], hs_createdAt = 1, hs_updatedAt = 1\<rparr>,
         \<lparr>hs_id = ''s2'', hs_messages = [], hs_createdAt = 2, hs_updatedAt = 2\<rparr>],
      h_currentSessionId = Some ''s2''\<rparr>"

text \<open>
  Storages that take no writes and hold, under the hook's key, an entry cut off in the
  middle, the text \<^verbatim>\<open>null\<close>, and the text of an empty object.
\<close>

definition storageWith :: "string \<Rightarrow> LocalStorage" where
  "storageWith entry =
     \<lparr>items = (\<lambda>key. if key = ''chat_history'' then Some entry else None),
      readable = True, accepts = (\<lambda>key v. False)\<rparr>"

definition truncatedStorage :: LocalStorage where
  "truncatedStorage = storageWith ''[{''"

definition nullStorage :: LocalStorage where
  "nullStorage = storageWith ''null''"

definition objectStorage :: LocalStorage where
  "objectStorage = storageWith ''{}''"

text \<open>
  What the runtime's \<^verbatim>\<open>JSON\<close> does with the texts and values of these scenarios:
  \<^verbatim>\<open>JSON.parse\<close> reads \<^verbatim>\<open>null\<close> as the value \<^verbatim>\<open>null\<close>, \<^verbatim>\<open>{}\<close> as an object
  without properties and \<^verbatim>\<open>[]\<close> as the empty array, and throws a SyntaxError on the
  text that is cut off; \<^verbatim>\<open>JSON.stringify\<close> writes these three values as these three
  texts. The scenarios hand it nothing else.
\<close>

definition scenarioJson :: "int Json" where
  "scenarioJson =
     \<lparr>parse = (\<lambda>text.
        if text = ''null'' then Inr JsNull
        else if text = ''{}'' then Inr (JsObject [])
        else if text = ''[]'' then Inr (JsArray [])
        else Inl SyntaxError),
      stringify = (\<lambda>v.
        if v = JsNull then Inr ''null''
        else if v = JsObject [] then Inr ''{}''
        else if v = JsArray [] then Inr ''[]''
        else Inl TypeError)\<rparr>"

section \<open>Properties of the orchestrator\<close>

subsection \<open>The store's update\<close>

lemma s_id_applyPatch [simp]: "s_id (applyPatch p s) = s_id s"
  by (simp add: applyPatch_def)

lemma s_messages_applyPatch_messagesPatch [simp]:
  "s_messages (applyPatch (messagesPatch f) s) = f (s_messages s)"
  by (simp add: applyPatch_def messagesPatch_def)

lemma find_updateChat:
  "find (\<lambda>s. s_id s = c) (updateChat cid p ss) =
     map_option (\<lambda>s. if s_id s = cid then applyPatch p s else s) (find (\<lambda>s. s_id s = c) ss)"
  by (induction ss) (simp_all add: updateChat_def)

lemma length_updateChat [simp]: "length (updateChat cid p ss) = length ss"
  by (simp add: updateChat_def)

lemma sessionMessages_cong:
  "sessions st' = sessions st \<Longrightarrow> sessionMessages c st' = sessionMessages c st"
  by (simp add: sessionMessages_def)

lemma sessionMessages_updateChat:
  assumes "sessions st' = updateChat cid (messagesPatch f) (sessions st)"
  shows "sessionMessages c st' =
     (if c = cid \<and> find (\<lambda>s. s_id s = c) (sessions st) \<noteq> None
      then f (sessionMessages c st) else sessionMessages c st)"
proof (cases "find (\<lambda>s. s_id s = c) (sessions st)")
  case None
  with assms show ?thesis by (simp add: sessionMessages_def find_updateChat)
next
  case (Some s)
  then have "s_id s = c" by (auto simp: find_Some_iff)
  with Some assms show ?thesis by (auto simp: sessionMessages_def find_updateChat)
qed

lemma s_messages_applyPatch:
  "s_messages (applyPatch p s) =
     (case p_messages p of None \<Rightarrow> s_messages s | Some f \<Rightarrow> f (s_messages s))"
  by (simp add: applyPatch_def)

lemma sessionMessages_updateChat_map:
  assumes "sessions st' = updateChat cid p (sessions st)"
    and "p_messages p = Some f" and "f [] = []"
  shows "sessionMessages c st' =
           (if c = cid then f (sessionMessages c st) else sessionMessages c st)"
proof (cases "find (\<lambda>s. s_id s = c) (sessions st)")
  case None
  with assms show ?thesis by (auto simp: sessionMessages_def find_updateChat)
next
  case (Some s)
  then have "s_id s = c" by (auto simp: find_Some_iff)
  with Some assms show ?thesis
    by (auto simp: sessionMessages_def find_updateChat s_messages_applyPatch)
qed

subsection \<open>Streaming\<close>

lemma sessionMessages_handleStreamChunk:
  "sessionMessages c (handleStreamChunk ctx t st) =
     (if c = ctx_chatId ctx
      then map (\<lambda>msg. if m_id msg = ctx_modelMessageId ctx
                       then msg\<lparr>m_text := t, m_status := Some Pending\<rparr> else msg)
             (sessionMessages c st)
      else sessionMessages c st)"
proof (rule sessionMessages_updateChat_map [where cid = "ctx_chatId ctx"])
  show "sessions (handleStreamChunk ctx t st) =
          updateChat (ctx_chatId ctx) (messagesPatch (\<lambda>prev. map (\<lambda>msg.
             if m_id msg = ctx_modelMessageId ctx
             then msg\<lparr>m_text := t, m_status := Some Pending\<rparr>
             else msg) prev)) (sessions st)"
    by (simp add: handleStreamChunk_def)
qed (simp_all add: messagesPatch_def)

lemma sessionMessages_handleSendMessage_resolved:
  "sessionMessages c (handleSendMessage_resolved ctx final g h now st) =
     (if c = ctx_chatId ctx
      then map (\<lambda>msg. if m_id msg = ctx_modelMessageId ctx
                       then msg\<lparr>m_text := final, m_status := Some Complete,
                                m_timestamp := now, m_groundingChunks := g\<rparr> else msg)
             (sessionMessages c st)
      else sessionMessages c st)"
proof (rule sessionMessages_updateChat_map [where cid = "ctx_chatId ctx"])
  show "sessions (handleSendMessage_resolved ctx final g h now st) =
          updateChat (ctx_chatId ctx) \<lparr>p_title = None, p_history = Some h,
           p_messages = Some (\<lambda>prev. map (\<lambda>msg.
             if m_id msg = ctx_modelMessageId ctx
             then msg\<lparr>m_text := final, m_status := Some Complete,
                      m_timestamp := now, m_groundingChunks := g\<rparr>
             else msg) prev)\<rparr> (sessions st)"
    by (simp add: handleSendMessage_resolved_def)
qed simp_all

lemma sessionMessages_handleSendMessage_catch:
  "sessionMessages c (handleSendMessage_catch ctx st) =
     (if c = ctx_chatId ctx
      then filter (\<lambda>m. m_id m \<noteq> ctx_modelMessageId ctx)
             (map (\<lambda>msg. if m_id msg = ctx_userMessageId ctx
                          then msg\<lparr>m_status := Some Error\<rparr> else msg)
                (sessionMessages c st))
      else sessionMessages c st)"
proof (rule sessionMessages_updateChat_map [where cid = "ctx_chatId ctx"])
  show "sessions (handleSendMessage_catch ctx st) =
          updateChat (ctx_chatId ctx)
            (messagesPatch (\<lambda>prev. filter (\<lambda>m. m_id m \<noteq> ctx_modelMessageId ctx)
             (map (\<lambda>msg. if m_id msg = ctx_userMessageId ctx
                          then msg\<lparr>m_status := Some Error\<rparr> else msg) prev))) (sessions st)"
    by (simp add: handleSendMessage_catch_def)
qed (simp_all add: messagesPatch_def)

text \<open>
  When the other handlers leave the messages of a session alone, the chunks of a stream
  leave in it the text of the last one.
\<close>

lemma sessionMessages_deliverChunks:
  assumes quiet: "\<And>k s. sessionMessages c (others k s) = sessionMessages c s"
  shows "sessionMessages c (deliverChunks ctx others k chunks st) =
     (if c = ctx_chatId ctx \<and> chunks \<noteq> []
      then map (\<lambda>msg. if m_id msg = ctx_modelMessageId ctx
                       then msg\<lparr>m_text := last chunks, m_status := Some Pending\<rparr> else msg)
             (sessionMessages c st)
      else sessionMessages c st)"
proof (induction chunks arbitrary: k st)
  case Nil
  then show ?case by simp
next
  case (Cons t ts)
  define st' where "st' = others (Suc k) (handleStreamChunk ctx t st)"
  have q: "sessionMessages c st' = sessionMessages c (handleStreamChunk ctx t st)"
    unfolding st'_def by (rule quiet)
  have "sessionMessages c (deliverChunks ctx others k (t # ts) st) =
      sessionMessages c (deliverChunks ctx others (Suc k) ts st')"
    by (simp add: st'_def)
  also have "\<dots> =
     (if c = ctx_chatId ctx \<and> ts \<noteq> []
      then map (\<lambda>msg. if m_id msg = ctx_modelMessageId ctx
                       then msg\<lparr>m_text := last ts, m_status := Some Pending\<rparr> else msg)
             (sessionMessages c st')
      else sessionMessages c st')"
    by (rule Cons.IH)
  finally show ?case
    unfolding q
    by (simp add: sessionMessages_handleStreamChunk comp_def cong: if_cong)
qed

lemma deliverChunks_uninterrupted:
  "deliverChunks ctx uninterrupted k chunks st = fold (handleStreamChunk ctx) chunks st"
  by (induction chunks arbitrary: k st) (simp_all add: uninterrupted_def)

lemma updateChat_updateChat:
  "updateChat cid (messagesPatch f) (updateChat cid (messagesPatch g) ss) =
     updateChat cid (messagesPatch (f \<circ> g)) ss"
  by (induction ss) (simp_all add: updateChat_def applyPatch_def messagesPatch_def)




subsection \<open>The start of a send\<close>

lemma sendAccepted_current:
  assumes "\<not> sendRejected messageText messageFile st"
  obtains cid where "currentChatId st = Some cid"
    and "find (\<lambda>s. s_id s = cid) (sessions st) \<noteq> None"
proof -
  from assms obtain cid where c: "currentChatId st = Some cid"
    by (cases "currentChatId st") (auto simp: sendRejected_def truthy_def)
  with assms have "find (\<lambda>s. s_id s = cid) (sessions st) \<noteq> None"
    by (simp add: sendRejected_def currentSession_def)
  with c show ?thesis by (rule that)
qed

lemma fst_handleSendMessage_begin:
  assumes "\<not> sendRejected messageText messageFile st"
  shows "fst (handleSendMessage_begin messageText messageFile messageIdToRetry env st) =
           Some \<lparr>ctx_chatId = the (currentChatId st),
                 ctx_userMessageId = userMessageId messageIdToRetry env,
                 ctx_modelMessageId = modelMessageId env\<rparr>"
  using assms by (simp add: handleSendMessage_begin_def Let_def)

lemma sessionMessages_handleSendMessage_begin:
  assumes acc: "\<not> sendRejected messageText messageFile st"
    and cid: "currentChatId st = Some cid"
  shows "sessionMessages cid (snd (handleSendMessage_begin messageText messageFile messageIdToRetry env st)) =
           keptOnSend messageIdToRetry (sessionMessages cid st)
           @ [userMessage messageText messageFile messageIdToRetry env, modelMessage env]"
proof -
  define rid where "rid = the messageIdToRetry"
  define st2 where "st2 = (if truthy messageIdToRetry
       then st\<lparr>isSending := True, sessions := updateChat cid
              (messagesPatch (\<lambda>prev. filter (\<lambda>m. m_id m \<noteq> rid) prev)) (sessions st)\<rparr>
       else st\<lparr>isSending := True\<rparr>)"
  from acc cid have ex: "find (\<lambda>s. s_id s = cid) (sessions st) \<noteq> None"
    by (simp add: sendRejected_def currentSession_def)
  have m2: "sessionMessages cid st2 = keptOnSend messageIdToRetry (sessionMessages cid st)"
  proof (cases "truthy messageIdToRetry")
    case True
    then have "sessions st2 = updateChat cid
        (messagesPatch (\<lambda>prev. filter (\<lambda>m. m_id m \<noteq> rid) prev)) (sessions st)"
      by (simp add: st2_def)
    from sessionMessages_updateChat [OF this, of cid] ex True show ?thesis
      by (simp add: keptOnSend_def rid_def)
  next
    case False
    then show ?thesis by (simp add: st2_def sessionMessages_def keptOnSend_def)
  qed
  have ex2: "find (\<lambda>s. s_id s = cid) (sessions st2) \<noteq> None"
    using ex by (simp add: st2_def find_updateChat)
  have "snd (handleSendMessage_begin messageText messageFile messageIdToRetry env st) =
      st2\<lparr>sessions := updateChat cid (messagesPatch (\<lambda>prev. prev @
        [userMessage messageText messageFile messageIdToRetry env, modelMessage env]))
        (sessions st2), input := [], inputFile := None\<rparr>"
    using acc cid by (simp add: handleSendMessage_begin_def Let_def st2_def rid_def)
  then have "sessions (snd (handleSendMessage_begin messageText messageFile messageIdToRetry env st)) =
      updateChat cid (messagesPatch (\<lambda>prev. prev @
        [userMessage messageText messageFile messageIdToRetry env, modelMessage env]))
        (sessions st2)"
    by simp
  from sessionMessages_updateChat [OF this, of cid] ex2 m2 show ?thesis
    by simp
qed

lemma handleSendMessage_accepted:
  assumes "\<not> sendRejected messageText messageFile st"
  shows "handleSendMessage messageText messageFile messageIdToRetry env remote others st =
           handleSendMessage_settle
             \<lparr>ctx_chatId = the (currentChatId st),
               ctx_userMessageId = userMessageId messageIdToRetry env,
               ctx_modelMessageId = modelMessageId env\<rparr>
             env remote others
             (snd (handleSendMessage_begin messageText messageFile messageIdToRetry env st))"
proof -
  obtain c st' where b: "handleSendMessage_begin messageText messageFile messageIdToRetry env st = (c, st')"
    by (cases "handleSendMessage_begin messageText messageFile messageIdToRetry env st")
  with fst_handleSendMessage_begin [OF assms, of messageIdToRetry env] show ?thesis
    by (simp add: handleSendMessage_def)
qed

lemma sessionMessages_handleSendMessage_finally [simp]:
  "sessionMessages c (handleSendMessage_finally st) = sessionMessages c st"
  by (simp add: handleSendMessage_finally_def sessionMessages_def)

lemma map_other_id:
  "mid \<notin> m_id ` set K \<Longrightarrow> map (\<lambda>msg. if m_id msg = mid then F msg else msg) K = K"
  by (induction K) auto

lemma filter_marked:
  "mid \<notin> m_id ` set K \<Longrightarrow>
   filter (\<lambda>m. m_id m \<noteq> mid)
     (map (\<lambda>msg. if m_id msg = uid then msg\<lparr>m_status := Some Error\<rparr> else msg) K)
   = map (\<lambda>msg. if m_id msg = uid then msg\<lparr>m_status := Some Error\<rparr> else msg) K"
  by (induction K) auto

lemma keptOnSend_ids: "m_id ` set (keptOnSend rid ms) \<subseteq> m_id ` set ms"
  by (auto simp: keptOnSend_def)

subsection \<open>A send that fails\<close>

lemma catch_marks:
  assumes "m \<in> set (sessionMessages (ctx_chatId ctx) (handleSendMessage_catch ctx st))"
  shows "m_id m \<noteq> ctx_modelMessageId ctx"
    and "m_id m = ctx_userMessageId ctx \<Longrightarrow> m_status m = Some Error"
  using assms by (auto simp: sessionMessages_handleSendMessage_catch)

lemma settle_rejected:
  assumes "remote = StartChatRejects \<or> remote = SendMessageRejects chunks"
  obtains st' where "handleSendMessage_settle ctx env remote others st =
      handleSendMessage_finally (handleSendMessage_catch ctx st')"
  using assms by (auto simp: handleSendMessage_settle_def)

lemma sessionMessages_failed_send:
  assumes acc: "\<not> sendRejected messageText messageFile st"
    and cid: "currentChatId st = Some cid"
    and fails: "remote = StartChatRejects \<or> remote = SendMessageRejects chunks"
    and quiet: "\<And>k s. sessionMessages cid (others k s) = sessionMessages cid s"
    and fresh: "modelMessageId env \<notin> m_id ` set (sessionMessages cid st)"
    and neq: "modelMessageId env \<noteq> userMessageId messageIdToRetry env"
  shows "sessionMessages cid
           (handleSendMessage messageText messageFile messageIdToRetry env remote others st) =
     map (\<lambda>msg. if m_id msg = userMessageId messageIdToRetry env
                 then msg\<lparr>m_status := Some Error\<rparr> else msg)
       (keptOnSend messageIdToRetry (sessionMessages cid st))
     @ [(userMessage messageText messageFile messageIdToRetry env)\<lparr>m_status := Some Error\<rparr>]"
proof -
  define uid where "uid = userMessageId messageIdToRetry env"
  define K where "K = keptOnSend messageIdToRetry (sessionMessages cid st)"
  define ctx where "ctx = \<lparr>ctx_chatId = cid, ctx_userMessageId = uid,
                           ctx_modelMessageId = modelMessageId env\<rparr>"
  define st1 where "st1 = snd (handleSendMessage_begin messageText messageFile messageIdToRetry env st)"
  have K: "modelMessageId env \<notin> m_id ` set K"
    using fresh keptOnSend_ids [of messageIdToRetry "sessionMessages cid st"] by (auto simp: K_def)
  have m1: "sessionMessages cid st1 =
      K @ [userMessage messageText messageFile messageIdToRetry env, modelMessage env]"
    unfolding st1_def K_def
    by (rule sessionMessages_handleSendMessage_begin [OF acc cid])
  have run: "handleSendMessage messageText messageFile messageIdToRetry env remote others st =
      handleSendMessage_settle ctx env remote others st1"
    using handleSendMessage_accepted [OF acc, of messageIdToRetry env remote others] cid
    by (simp add: ctx_def uid_def st1_def)
  have c: "ctx_chatId ctx = cid" "ctx_userMessageId ctx = uid" "ctx_modelMessageId ctx = modelMessageId env"
    by (simp_all add: ctx_def)
  have ids: "m_id (userMessage messageText messageFile messageIdToRetry env) = uid"
      "m_id (modelMessage env) = modelMessageId env"
    by (simp_all add: userMessage_def modelMessage_def uid_def)
  have neq': "uid \<noteq> modelMessageId env" using neq by (simp add: uid_def)
  have "sessionMessages cid (handleSendMessage_settle ctx env remote others st1) =
      map (\<lambda>msg. if m_id msg = uid then msg\<lparr>m_status := Some Error\<rparr> else msg) K @
      [(userMessage messageText messageFile messageIdToRetry env)\<lparr>m_status := Some Error\<rparr>]"
    using fails
  proof
    assume "remote = StartChatRejects"
    then show ?thesis
      using K neq'
      by (simp add: handleSendMessage_settle_def sessionMessages_handleSendMessage_catch c m1
            quiet filter_marked ids)
  next
    assume "remote = SendMessageRejects chunks"
    then show ?thesis
      using K neq'
      by (simp add: handleSendMessage_settle_def sessionMessages_handleSendMessage_catch c m1
            sessionMessages_deliverChunks [of cid others, OF quiet] quiet
            filter_marked map_other_id ids)
  qed
  with run show ?thesis by (simp add: uid_def K_def)
qed

lemma failedState_eq:
  "failedState =
      \<lparr>sessions = [\<lparr>s_id = ''c1'', s_title = ''New chat'', s_messages =
          [\<lparr>m_id = ''u1'', m_role = User, m_text = ''Muraho'', m_file = None, m_timestamp = 10,
             m_status = Some Error, m_groundingChunks = None\<rparr>],
          s_history = [], s_createdAt = 0\<rparr>, emptySession ''c2''],
        currentChatId = Some ''c1'', isSending = False, input = [], inputFile = None\<rparr>"
  by (simp add: failedState_def handleSendMessage_def handleSendMessage_begin_def
        handleSendMessage_settle_def handleSendMessage_catch_def handleSendMessage_finally_def
        uninterrupted_def
        sendRejected_def trim_def isWhiteSpace_def truthy_def currentSession_def idleState_def
        emptySession_def firstEnv_def updateChat_def applyPatch_def messagesPatch_def Let_def
        userMessage_def userMessageId_def modelMessage_def modelMessageId_def)

lemma isSending_handleSendMessage_settle [simp]:
  "isSending (handleSendMessage_settle ctx env remote others st) = False"
  by (simp add: handleSendMessage_settle_def handleSendMessage_finally_def)

text \<open>
  Claim C1, as amended. Take a call of \<^verbatim>\<open>handleSendMessage\<close> that passes its guard
  and whose remote call rejects (in \<^verbatim>\<open>startChat\<close>, or in \<^verbatim>\<open>sendMessage\<close> after
  any chunks). Whatever the other handlers do while the call is suspended, when it
  ends the in-flight flag is cleared, no message of the session has the placeholder's
  id, and every message with the user message's id has the status error. When the
  other handlers leave the message list of the session alone, and the placeholder's id
  is one that no message of the session had and is not the user message's, the session
  ends as the messages the send kept, with the status error on those that have the user
  message's id, followed by the sent user message with the status error, and nothing
  else. On a retry these are the previous messages without the retried id, unchanged;
  on a send without retry id all the previous messages, unchanged when the id drawn for
  the user message is new, and the count is the count before plus one.
\<close>

theorem C1_failed_send_marks_user_message_error:
  assumes "\<not> sendRejected messageText messageFile st"
    and "currentChatId st = Some cid"
    and "remote = StartChatRejects \<or> remote = SendMessageRejects chunks"
  shows "\<not> isSending (handleSendMessage messageText messageFile messageIdToRetry env remote others st)
       \<and> (\<forall>m \<in> set (sessionMessages cid
                (handleSendMessage messageText messageFile messageIdToRetry env remote others st)).
             m_id m \<noteq> modelMessageId env
             \<and> (m_id m = userMessageId messageIdToRetry env \<longrightarrow> m_status m = Some Error))
       \<and> ((\<forall>k s. sessionMessages cid (others k s) = sessionMessages cid s)
            \<and> modelMessageId env \<notin> m_id ` set (sessionMessages cid st)
            \<and> modelMessageId env \<noteq> userMessageId messageIdToRetry env \<longrightarrow>
            sessionMessages cid
                (handleSendMessage messageText messageFile messageIdToRetry env remote others st)
              = map (\<lambda>msg. if m_id msg = userMessageId messageIdToRetry env
                            then msg\<lparr>m_status := Some Error\<rparr> else msg)
                  (keptOnSend messageIdToRetry (sessionMessages cid st))
                @ [(userMessage messageText messageFile messageIdToRetry env)\<lparr>m_status := Some Error\<rparr>]
            \<and> (truthy messageIdToRetry \<longrightarrow>
                 sessionMessages cid
                   (handleSendMessage messageText messageFile messageIdToRetry env remote others st)
                 = filter (\<lambda>m. m_id m \<noteq> the messageIdToRetry) (sessionMessages cid st)
                   @ [(userMessage messageText messageFile messageIdToRetry env)\<lparr>m_status := Some Error\<rparr>])
            \<and> (\<not> truthy messageIdToRetry \<and> uuid_user env \<notin> m_id ` set (sessionMessages cid st) \<longrightarrow>
                 sessionMessages cid
                   (handleSendMessage messageText messageFile messageIdToRetry env remote others st)
                 = sessionMessages cid st
                   @ [(userMessage messageText messageFile messageIdToRetry env)\<lparr>m_status := Some Error\<rparr>])
            \<and> (\<not> truthy messageIdToRetry \<longrightarrow>
                 length (sessionMessages cid
                   (handleSendMessage messageText messageFile messageIdToRetry env remote others st))
                 = length (sessionMessages cid st) + 1))"
proof -
  define final where
    "final = handleSendMessage messageText messageFile messageIdToRetry env remote others st"
  define ms where "ms = sessionMessages cid st"
  define uid where "uid = userMessageId messageIdToRetry env"
  define mark where "mark = (\<lambda>msg :: ChatMessage. if m_id msg = uid
                         then msg\<lparr>m_status := Some Error\<rparr> else msg)"
  define u where "u = (userMessage messageText messageFile messageIdToRetry env)\<lparr>m_status := Some Error\<rparr>"
  define ctx where "ctx = \<lparr>ctx_chatId = cid, ctx_userMessageId = uid,
                           ctx_modelMessageId = modelMessageId env\<rparr>"
  have run: "final = handleSendMessage_settle ctx env remote others
      (snd (handleSendMessage_begin messageText messageFile messageIdToRetry env st))"
    using handleSendMessage_accepted [OF assms(1), of messageIdToRetry env remote others] assms(2)
    by (simp add: final_def ctx_def uid_def)
  have 1: "\<not> isSending final" by (simp add: run)
  obtain st' where "handleSendMessage_settle ctx env remote others
        (snd (handleSendMessage_begin messageText messageFile messageIdToRetry env st))
      = handleSendMessage_finally (handleSendMessage_catch ctx st')"
    by (rule settle_rejected [OF assms(3)])
  with run have "final = handleSendMessage_finally (handleSendMessage_catch ctx st')"
    by simp
  then have fm: "sessionMessages cid final = sessionMessages (ctx_chatId ctx) (handleSendMessage_catch ctx st')"
    by (simp add: ctx_def)
  have 2: "\<forall>m \<in> set (sessionMessages cid final).
      m_id m \<noteq> modelMessageId env \<and> (m_id m = uid \<longrightarrow> m_status m = Some Error)"
  proof
    fix m assume "m \<in> set (sessionMessages cid final)"
    then have "m \<in> set (sessionMessages (ctx_chatId ctx) (handleSendMessage_catch ctx st'))"
      by (simp add: fm)
    from catch_marks [OF this] show
      "m_id m \<noteq> modelMessageId env \<and> (m_id m = uid \<longrightarrow> m_status m = Some Error)"
      by (simp add: ctx_def)
  qed
  have 3: "sessionMessages cid final = map mark (keptOnSend messageIdToRetry ms) @ [u]
      \<and> (truthy messageIdToRetry \<longrightarrow>
            sessionMessages cid final = filter (\<lambda>m. m_id m \<noteq> the messageIdToRetry) ms @ [u])
      \<and> (\<not> truthy messageIdToRetry \<and> uuid_user env \<notin> m_id ` set ms \<longrightarrow>
            sessionMessages cid final = ms @ [u])
      \<and> (\<not> truthy messageIdToRetry \<longrightarrow> length (sessionMessages cid final) = length ms + 1)"
    if quiet: "\<forall>k s. sessionMessages cid (others k s) = sessionMessages cid s"
      and fresh: "modelMessageId env \<notin> m_id ` set (sessionMessages cid st)"
      and neq: "modelMessageId env \<noteq> userMessageId messageIdToRetry env"
  proof -
    from quiet have q: "\<And>k s. sessionMessages cid (others k s) = sessionMessages cid s"
      by simp
    have eq: "sessionMessages cid final = map mark (keptOnSend messageIdToRetry ms) @ [u]"
      unfolding final_def ms_def mark_def u_def uid_def
      by (rule sessionMessages_failed_send [OF assms(1) assms(2) assms(3) q fresh neq])
    have a: "map mark (filter (\<lambda>m. m_id m \<noteq> the messageIdToRetry) ms)
        = filter (\<lambda>m. m_id m \<noteq> the messageIdToRetry) ms" if "truthy messageIdToRetry"
    proof -
      from that have "uid = the messageIdToRetry" by (simp add: uid_def userMessageId_def)
      then have "uid \<notin> m_id ` set (filter (\<lambda>m. m_id m \<noteq> the messageIdToRetry) ms)"
        by auto
      then show ?thesis unfolding mark_def by (rule map_other_id)
    qed
    have b: "map mark ms = ms" if "\<not> truthy messageIdToRetry" "uuid_user env \<notin> m_id ` set ms"
    proof -
      from that have "uid \<notin> m_id ` set ms" by (simp add: uid_def userMessageId_def)
      then show ?thesis unfolding mark_def by (rule map_other_id)
    qed
    from eq a b show ?thesis by (simp add: keptOnSend_def)
  qed
  from 1 2 3 show ?thesis
    unfolding final_def ms_def mark_def u_def uid_def by blast
qed

theorem C1_failed_send_witness:
  "sessionMessages ''c1''
     (handleSendMessage ''Muraho'' None None firstEnv (SendMessageRejects [''Mu'']) uninterrupted
        idleState)
     = [\<lparr>m_id = ''u1'', m_role = User, m_text = ''Muraho'', m_file = None, m_timestamp = 10,
          m_status = Some Error, m_groundingChunks = None\<rparr>]
   \<and> length (sessionMessages ''c1'' idleState) = 0
   \<and> \<not> isSending
     (handleSendMessage ''Muraho'' None None firstEnv (SendMessageRejects [''Mu'']) uninterrupted
        idleState)"
proof -
  have a: "\<not> sendRejected ''Muraho'' None idleState"
    by (simp add: sendRejected_def trim_def isWhiteSpace_def truthy_def currentSession_def
          idleState_def emptySession_def)
  have b: "currentChatId idleState = Some ''c1''"
    by (simp add: idleState_def)
  have c: "SendMessageRejects [''Mu''] = StartChatRejects
         \<or> SendMessageRejects [''Mu''] = SendMessageRejects [''Mu'']"
    by simp
  have m: "sessionMessages ''c1'' idleState = []"
    by (simp add: sessionMessages_def idleState_def emptySession_def)
  have d: "modelMessageId firstEnv \<noteq> userMessageId None firstEnv"
    by (simp add: modelMessageId_def userMessageId_def truthy_def firstEnv_def)
  from C1_failed_send_marks_user_message_error [OF a b c, of None firstEnv uninterrupted] d
  show ?thesis
    by (simp add: m uninterrupted_def keptOnSend_def truthy_def userMessage_def userMessageId_def
          firstEnv_def)
qed

text \<open>
  The claim as it is written fails on two paths. The earlier component's \<^verbatim>\<open>handleSend\<close>
  has no message status: when the remote call rejects it appends a model message with
  an error text, and the session has two messages more than before. And a retry that
  fails again leaves the count as it was before the retry (the failed message is
  taken out and put back), not one more.
\<close>

theorem C1_counterexample:
  "length (legacyCurrentMessages legacyIdleState) = 0
   \<and> legacyCurrentMessages (handleSend legacyEnv rejectingRemote legacyIdleState) =
       [\<lparr>lm_id = ''u1'', lm_role = User, lm_content = ''Muraho'', lm_timestamp = 10, lm_file = None\<rparr>,
        \<lparr>lm_id = ''m1'', lm_role = Model,
          lm_content = ''Sorry, there was an error processing your request.'',
          lm_timestamp = 15, lm_file = None\<rparr>]
   \<and> length (sessionMessages ''c1'' failedState) = 1
   \<and> length (sessionMessages ''c1'' (handleRetry ''u1'' secondEnv StartChatRejects uninterrupted
        failedState)) = 1"
proof -
  have l0: "length (legacyCurrentMessages legacyIdleState) = 0"
    by (simp add: legacyCurrentMessages_def legacyCurrentSession_def legacyIdleState_def)
  have l1: "legacyCurrentMessages (handleSend legacyEnv rejectingRemote legacyIdleState) =
       [\<lparr>lm_id = ''u1'', lm_role = User, lm_content = ''Muraho'', lm_timestamp = 10, lm_file = None\<rparr>,
        \<lparr>lm_id = ''m1'', lm_role = Model,
          lm_content = ''Sorry, there was an error processing your request.'',
          lm_timestamp = 15, lm_file = None\<rparr>]"
    by (simp add: handleSend_def legacyCurrentMessages_def legacyCurrentSession_def
          legacyIdleState_def legacyEnv_def rejectingRemote_def legacyUpdateChat_def
          trim_def isWhiteSpace_def errorText_def Let_def)
  note f = failedState_eq
  have r: "sessionMessages ''c1'' (handleRetry ''u1'' secondEnv StartChatRejects uninterrupted
        failedState) =
          [\<lparr>m_id = ''u1'', m_role = User, m_text = ''Muraho'', m_file = None, m_timestamp = 20,
             m_status = Some Error, m_groundingChunks = None\<rparr>]"
    by (simp add: f handleRetry_def handleRetry_begin_def handleSendMessage_begin_def
          handleSendMessage_settle_def handleSendMessage_catch_def handleSendMessage_finally_def
          uninterrupted_def sendRejected_def trim_def isWhiteSpace_def truthy_def currentSession_def
          sessionMessages_def
          emptySession_def secondEnv_def updateChat_def applyPatch_def messagesPatch_def Let_def
          userMessage_def userMessageId_def modelMessage_def modelMessageId_def)
  have f1: "length (sessionMessages ''c1'' failedState) = 1"
    by (simp add: f sessionMessages_def)
  from l0 l1 f1 r show ?thesis by simp
qed

subsection \<open>The earlier component's failing send\<close>

lemma find_legacyUpdateChat:
  "find (\<lambda>s. ls_id s = cid) (legacyUpdateChat (Some cid) msgs chat ss) =
      map_option (\<lambda>s. s\<lparr>ls_messages := msgs,
                         ls_chat := (case chat of None \<Rightarrow> ls_chat s | Some c \<Rightarrow> Some c)\<rparr>)
        (find (\<lambda>s. ls_id s = cid) ss)"
  by (induction ss) (simp_all add: legacyUpdateChat_def)

text \<open>
  Whenever \<^verbatim>\<open>handleSend\<close> passes its guard with a current session and its remote call
  rejects (in \<^verbatim>\<open>sendMessage\<close>, or in \<^verbatim>\<open>startChat\<close> when the session has no chat
  yet), the session ends with the user message and a model message with the error text.
\<close>

lemma handleSend_failed_appends_error_text:
  assumes guard: "trim (l_input st) \<noteq> [] \<or> l_file st \<noteq> None" and idle: "\<not> l_isSending st"
    and cs: "legacyCurrentSession st = Some s"
    and fails: "sendMessage_result remote = None
                \<or> (ls_chat s = None \<and> startChat_result remote = None)"
  shows "legacyCurrentMessages (handleSend env remote st) =
           legacyCurrentMessages st
           @ [\<lparr>lm_id = le_uuid_user env, lm_role = User, lm_content = trim (l_input st),
                lm_timestamp = le_now_user env, lm_file = l_file st\<rparr>,
              \<lparr>lm_id = le_uuid_reply env, lm_role = Model, lm_content = errorText,
                lm_timestamp = le_now_reply env, lm_file = None\<rparr>]"
proof -
  from cs obtain cid where cid: "l_currentChatId st = Some cid"
    and f: "find (\<lambda>s. ls_id s = cid) (l_sessions st) = Some s"
    by (auto simp: legacyCurrentSession_def split: option.splits)
  from guard idle have g: "\<not> ((trim (l_input st) = [] \<and> l_file st = None) \<or> l_isSending st)"
    by simp
  show ?thesis
    using fails cid f cs
    unfolding handleSend_def Let_def if_not_P [OF g]
    by (auto simp: legacyCurrentMessages_def legacyCurrentSession_def find_legacyUpdateChat
          split: option.splits)
qed

subsection \<open>Sends that overlap\<close>

lemmas orchestrator_defs =
  uninterrupted_def handleSendMessage_def handleSendMessage_begin_def handleSendMessage_settle_def
  handleSendMessage_resolved_def handleSendMessage_catch_def handleSendMessage_finally_def
  handleStreamChunk_def handleRetry_def handleRetry_begin_def handleRegenerate_def
  handleRegenerate_begin_def handleSuggestedQuestionClick_begin_def keptOnRegenerate_def
  handleSendFromCamera_begin_def
  sendRejected_def trim_def isWhiteSpace_def truthy_def currentSession_def
  updateChat_def applyPatch_def messagesPatch_def Let_def
  userMessage_def userMessageId_def modelMessage_def modelMessageId_def

lemma sendingState_eq:
  "sendingState =
     \<lparr>sessions = [\<lparr>s_id = ''c1'', s_title = ''New chat'', s_messages =
          [\<lparr>m_id = ''u1'', m_role = User, m_text = ''Muraho'', m_file = None, m_timestamp = 10,
             m_status = Some Complete, m_groundingChunks = None\<rparr>,
           \<lparr>m_id = ''m1'', m_role = Model, m_text = [], m_file = None, m_timestamp = 11,
             m_status = Some Pending, m_groundingChunks = None\<rparr>],
          s_history = [], s_createdAt = 0\<rparr>, emptySession ''c2''],
      currentChatId = Some ''c1'', isSending = True, input = [], inputFile = None\<rparr>"
  by (simp add: sendingState_def orchestrator_defs idleState_def emptySession_def firstEnv_def)

text \<open>The two handlers that do look at the in-flight flag return at once when it is set.\<close>

lemma handleRegenerate_while_sending:
  "isSending st \<Longrightarrow> handleRegenerate env remote others st = st"
  by (simp add: handleRegenerate_def handleRegenerate_begin_def split: option.splits)

lemma handleSend_while_sending:
  "l_isSending st \<Longrightarrow> handleSend env remote st = st"
  by (simp add: handleSend_def)

text \<open>
  Claim C2 fails on \<^verbatim>\<open>handleSendMessage\<close>: its guard does not read the in-flight flag.
  With the first send in flight, a picture sent from the camera dialog (whose button
  stays enabled during a send) appends a second pair of messages; so does a suggested
  question, and a retry takes the first user message out and appends it again with a
  second placeholder.
\<close>

theorem C2_send_while_sending_appends_a_pair:
  "isSending sendingState
   \<and> length (sessionMessages ''c1'' sendingState) = 2
   \<and> sessionMessages ''c1''
        (snd (handleSendFromCamera_begin ''data:image/jpeg;base64,AAAA'' [] ''2026-01-01T00:00:00.000Z''
           secondEnv sendingState)) =
       [\<lparr>m_id = ''u1'', m_role = User, m_text = ''Muraho'', m_file = None, m_timestamp = 10,
          m_status = Some Complete, m_groundingChunks = None\<rparr>,
        \<lparr>m_id = ''m1'', m_role = Model, m_text = [], m_file = None, m_timestamp = 11,
          m_status = Some Pending, m_groundingChunks = None\<rparr>,
        \<lparr>m_id = ''u2'', m_role = User, m_text = [],
          m_file = Some \<lparr>f_name = ''capture_2026-01-01T00:00:00.000Z.jpg'',
                         f_type = ''image/jpeg'', f_dataUrl = ''data:image/jpeg;base64,AAAA''\<rparr>,
          m_timestamp = 20, m_status = Some Complete, m_groundingChunks = None\<rparr>,
        \<lparr>m_id = ''m2'', m_role = Model, m_text = [], m_file = None, m_timestamp = 21,
          m_status = Some Pending, m_groundingChunks = None\<rparr>]
   \<and> sessionMessages ''c1''
        (snd (handleSuggestedQuestionClick_begin ''Amakuru?'' secondEnv sendingState)) =
       [\<lparr>m_id = ''u1'', m_role = User, m_text = ''Muraho'', m_file = None, m_timestamp = 10,
          m_status = Some Complete, m_groundingChunks = None\<rparr>,
        \<lparr>m_id = ''m1'', m_role = Model, m_text = [], m_file = None, m_timestamp = 11,
          m_status = Some Pending, m_groundingChunks = None\<rparr>,
        \<lparr>m_id = ''u2'', m_role = User, m_text = ''Amakuru?'', m_file = None, m_timestamp = 20,
          m_status = Some Complete, m_groundingChunks = None\<rparr>,
        \<lparr>m_id = ''m2'', m_role = Model, m_text = [], m_file = None, m_timestamp = 21,
          m_status = Some Pending, m_groundingChunks = None\<rparr>]
   \<and> sessionMessages ''c1'' (snd (handleRetry_begin ''u1'' secondEnv sendingState)) =
       [\<lparr>m_id = ''m1'', m_role = Model, m_text = [], m_file = None, m_timestamp = 11,
          m_status = Some Pending, m_groundingChunks = None\<rparr>,
        \<lparr>m_id = ''u1'', m_role = User, m_text = ''Muraho'', m_file = None, m_timestamp = 20,
          m_status = Some Complete, m_groundingChunks = None\<rparr>,
        \<lparr>m_id = ''m2'', m_role = Model, m_text = [], m_file = None, m_timestamp = 21,
          m_status = Some Pending, m_groundingChunks = None\<rparr>]"
  by (simp add: sendingState_eq orchestrator_defs sessionMessages_def emptySession_def
        secondEnv_def)

text \<open>
  Claim C3 fails for the same reason: after a send and, before it settles, a picture
  sent from the camera dialog, the session has two pending messages.
\<close>

theorem C3_two_pending_messages:
  "length (filter (\<lambda>m. m_status m = Some Pending)
     (sessionMessages ''c1''
        (snd (handleSendFromCamera_begin ''data:image/jpeg;base64,AAAA'' [] ''2026-01-01T00:00:00.000Z''
           secondEnv
           (snd (handleSendMessage_begin ''Muraho'' None None firstEnv idleState)))))) = 2"
  by (simp add: orchestrator_defs sessionMessages_def idleState_def emptySession_def
        firstEnv_def secondEnv_def)

text \<open>
  When the first send then fails, its \<^verbatim>\<open>catch\<close> block marks its user message and
  takes its placeholder out, and its \<^verbatim>\<open>finally\<close> block clears the in-flight flag,
  with the second send still in flight and its messages behind the failed one.
\<close>

lemma failed_send_with_a_send_between:
  "sessionMessages ''c1''
     (handleSendMessage ''Muraho'' None None firstEnv StartChatRejects cameraSendBetween idleState) =
       [\<lparr>m_id = ''u1'', m_role = User, m_text = ''Muraho'', m_file = None, m_timestamp = 10,
          m_status = Some Error, m_groundingChunks = None\<rparr>,
        \<lparr>m_id = ''u2'', m_role = User, m_text = [],
          m_file = Some \<lparr>f_name = ''capture_2026-01-01T00:00:00.000Z.jpg'',
                         f_type = ''image/jpeg'', f_dataUrl = ''data:image/jpeg;base64,AAAA''\<rparr>,
          m_timestamp = 20, m_status = Some Complete, m_groundingChunks = None\<rparr>,
        \<lparr>m_id = ''m2'', m_role = Model, m_text = [], m_file = None, m_timestamp = 21,
          m_status = Some Pending, m_groundingChunks = None\<rparr>]
   \<and> \<not> isSending
     (handleSendMessage ''Muraho'' None None firstEnv StartChatRejects cameraSendBetween idleState)"
  by (simp add: cameraSendBetween_def orchestrator_defs sessionMessages_def idleState_def
        emptySession_def firstEnv_def secondEnv_def)

subsection \<open>Single flight\<close>

lemma in_updateChat:
  "s' \<in> set (updateChat cid p ss) \<Longrightarrow>
   \<exists>s \<in> set ss. s' = (if s_id s = cid then applyPatch p s else s)"
  by (auto simp: updateChat_def)

lemma updateChat_keep_all:
  "updateChat cid (messagesPatch (\<lambda>prev. prev)) ss = ss"
  by (induction ss) (simp_all add: updateChat_def applyPatch_def messagesPatch_def)

lemma sessions_handleSendMessage_begin:
  assumes "handleSendMessage_begin messageText messageFile messageIdToRetry env st = (Some ctx, st')"
  shows "sessions st' = updateChat (ctx_chatId ctx)
           (messagesPatch (\<lambda>prev. keptOnSend messageIdToRetry prev
              @ [userMessage messageText messageFile messageIdToRetry env, modelMessage env]))
           (sessions st)"
    and "ctx_modelMessageId ctx = modelMessageId env"
    and "ctx_userMessageId ctx = userMessageId messageIdToRetry env"
    and "isSending st'"
proof -
  from assms have acc: "\<not> sendRejected messageText messageFile st"
    by (auto simp: handleSendMessage_begin_def split: if_splits)
  from assms acc show "ctx_modelMessageId ctx = modelMessageId env"
      "ctx_userMessageId ctx = userMessageId messageIdToRetry env" "isSending st'"
    by (auto simp: handleSendMessage_begin_def Let_def)
  have comp: "(\<lambda>prev. prev @ [u, p]) \<circ> (\<lambda>prev. filter P prev) = (\<lambda>prev. filter P prev @ [u, p])"
    for u p :: ChatMessage and P
    by (rule ext) simp
  from assms acc show "sessions st' = updateChat (ctx_chatId ctx)
           (messagesPatch (\<lambda>prev. keptOnSend messageIdToRetry prev
              @ [userMessage messageText messageFile messageIdToRetry env, modelMessage env]))
           (sessions st)"
    by (auto simp: handleSendMessage_begin_def Let_def keptOnSend_def updateChat_updateChat comp)
qed

lemma length_filter_le_of_imp:
  "(\<And>x. x \<in> set xs \<Longrightarrow> P x \<Longrightarrow> Q x) \<Longrightarrow> length (filter P xs) \<le> length (filter Q xs)"
  by (induction xs) auto

lemma flightInvariant_begin:
  assumes inv: "flightInvariant None st"
    and b: "handleSendMessage_begin messageText messageFile messageIdToRetry env st = (Some ctx, st')"
    and fresh: "freshModelId messageIdToRetry env st"
  shows "flightInvariant (Some ctx) st'"
proof -
  note sb = sessions_handleSendMessage_begin [OF b]
  have u: "m_status (userMessage messageText messageFile messageIdToRetry env) = Some Complete"
      "m_id (userMessage messageText messageFile messageIdToRetry env) \<noteq> modelMessageId env"
    using fresh by (auto simp: userMessage_def freshModelId_def)
  have p: "m_id (modelMessage env) = modelMessageId env"
    by (simp add: modelMessage_def)
  {
    fix s' assume "s' \<in> set (sessions st')"
    then obtain s where s: "s \<in> set (sessions st)"
      and s': "s' = (if s_id s = ctx_chatId ctx
          then applyPatch (messagesPatch (\<lambda>prev. keptOnSend messageIdToRetry prev
              @ [userMessage messageText messageFile messageIdToRetry env, modelMessage env])) s
          else s)"
      unfolding sb(1) by (blast dest: in_updateChat)
    from inv s have np: "\<forall>m \<in> set (s_messages s). m_status m \<noteq> Some Pending"
      by (simp add: flightInvariant_def)
    have nf: "\<forall>m \<in> set (s_messages s). m_id m \<noteq> modelMessageId env"
    proof (intro ballI notI)
      fix m assume m: "m \<in> set (s_messages s)" and e: "m_id m = modelMessageId env"
      from m have "m_id m \<in> m_id ` set (s_messages s)" by (rule imageI)
      with s have "m_id m \<in> allMessageIds st" unfolding allMessageIds_def by (rule UN_I)
      with e fresh show False by (simp add: freshModelId_def)
    qed
    then have z: "filter (\<lambda>m. m_id m = modelMessageId env) (s_messages s) = []"
      by (simp add: filter_empty_conv)
    have kz: "filter (\<lambda>m. m_id m = modelMessageId env) (keptOnSend messageIdToRetry (s_messages s)) = []"
      using nf by (auto simp: filter_empty_conv keptOnSend_def)
    have kp: "\<forall>m \<in> set (keptOnSend messageIdToRetry (s_messages s)). m_status m \<noteq> Some Pending"
      using np by (auto simp: keptOnSend_def)
    have "(\<forall>m \<in> set (s_messages s'). m_status m = Some Pending \<longrightarrow>
                m_id m = ctx_modelMessageId ctx \<and> s_id s' = ctx_chatId ctx)
             \<and> length (filter (\<lambda>m. m_id m = ctx_modelMessageId ctx) (s_messages s')) \<le> 1"
      using np z kz kp u p by (auto simp: s' sb(2))
  }
  then show ?thesis by (simp add: flightInvariant_def)
qed

lemma flightInvariant_regenerate:
  assumes inv: "flightInvariant None st"
    and b: "handleRegenerate_begin env st = (Some ctx, st')"
    and fresh: "freshModelId None env st"
  shows "flightInvariant (Some ctx) st'"
proof -
  from b obtain cs where cs: "currentSession st = Some cs"
    by (cases "currentSession st") (simp_all add: handleRegenerate_begin_def)
  with b have idle: "\<not> isSending st"
    by (auto simp: handleRegenerate_begin_def split: if_splits)
  from b cs idle obtain lastUserMessage where
    lu: "find (\<lambda>m. m_role m = User) (rev (s_messages cs)) = Some lastUserMessage"
    by (cases "find (\<lambda>m. m_role m = User) (rev (s_messages cs))")
       (simp_all add: handleRegenerate_begin_def)
  from b cs idle lu have
    b': "handleSendMessage_begin (m_text lastUserMessage) (m_file lastUserMessage) None env
           (st\<lparr>sessions := updateChat (s_id cs)
              (messagesPatch (\<lambda>prev. filter (keptOnRegenerate (m_id (last (s_messages cs)))) prev))
              (sessions st)\<rparr>) = (Some ctx, st')"
    by (simp add: handleRegenerate_begin_def Let_def)
  define st1 where "st1 = st\<lparr>sessions := updateChat (s_id cs)
              (messagesPatch (\<lambda>prev. filter (keptOnRegenerate (m_id (last (s_messages cs)))) prev))
              (sessions st)\<rparr>"
  have sub: "\<exists>s \<in> set (sessions st). set (s_messages s1) \<subseteq> set (s_messages s)"
    if "s1 \<in> set (sessions st1)" for s1
  proof -
    from that obtain s where "s \<in> set (sessions st)"
      and "s1 = (if s_id s = s_id cs then applyPatch
            (messagesPatch (\<lambda>prev. filter (keptOnRegenerate (m_id (last (s_messages cs)))) prev)) s
          else s)"
      unfolding st1_def by (auto dest: in_updateChat)
    then show ?thesis by (intro bexI [of _ s]) auto
  qed
  have inv1: "flightInvariant None st1"
    using inv sub by (fastforce simp: flightInvariant_def st1_def)
  have fresh1: "freshModelId None env st1"
    using fresh sub by (fastforce simp: freshModelId_def allMessageIds_def)
  from flightInvariant_begin [OF inv1 b' [folded st1_def] fresh1] show ?thesis .
qed

lemma flightInvariant_chunk:
  assumes "flightInvariant (Some ctx) st"
  shows "flightInvariant (Some ctx) (handleStreamChunk ctx t st)"
proof -
  have ids: "filter (\<lambda>m. m_id m = mid) (map (\<lambda>msg. if m_id msg = mid
        then msg\<lparr>m_text := t, m_status := Some Pending\<rparr> else msg) ms)
      = map (\<lambda>msg. msg\<lparr>m_text := t, m_status := Some Pending\<rparr>) (filter (\<lambda>m. m_id m = mid) ms)"
    for mid and ms :: "ChatMessage list"
    by (induction ms) auto
  {
    fix s' assume "s' \<in> set (sessions (handleStreamChunk ctx t st))"
    then obtain s where s: "s \<in> set (sessions st)"
      and s': "s' = (if s_id s = ctx_chatId ctx
          then applyPatch (messagesPatch (\<lambda>prev. map (\<lambda>msg.
             if m_id msg = ctx_modelMessageId ctx
             then msg\<lparr>m_text := t, m_status := Some Pending\<rparr>
             else msg) prev)) s
          else s)"
      by (auto simp: handleStreamChunk_def dest: in_updateChat)
    from assms s have i: "(\<forall>m \<in> set (s_messages s). m_status m = Some Pending \<longrightarrow>
                m_id m = ctx_modelMessageId ctx \<and> s_id s = ctx_chatId ctx)"
      "length (filter (\<lambda>m. m_id m = ctx_modelMessageId ctx) (s_messages s)) \<le> 1"
      by (simp_all add: flightInvariant_def)
    then have "(\<forall>m \<in> set (s_messages s'). m_status m = Some Pending \<longrightarrow>
                m_id m = ctx_modelMessageId ctx \<and> s_id s' = ctx_chatId ctx)
             \<and> length (filter (\<lambda>m. m_id m = ctx_modelMessageId ctx) (s_messages s')) \<le> 1"
      by (auto simp: s' ids)
  }
  then show ?thesis by (simp add: flightInvariant_def)
qed

lemma flightInvariant_resolved:
  assumes "flightInvariant (Some ctx) st"
  shows "flightInvariant None
           (handleSendMessage_finally (handleSendMessage_resolved ctx final g h now st))"
proof -
  {
    fix s' assume "s' \<in> set (sessions (handleSendMessage_resolved ctx final g h now st))"
    then obtain s where s: "s \<in> set (sessions st)"
      and s': "s' = (if s_id s = ctx_chatId ctx
          then applyPatch \<lparr>p_title = None, p_history = Some h,
           p_messages = Some (\<lambda>prev. map (\<lambda>msg.
             if m_id msg = ctx_modelMessageId ctx
             then msg\<lparr>m_text := final, m_status := Some Complete,
                      m_timestamp := now, m_groundingChunks := g\<rparr>
             else msg) prev)\<rparr> s
          else s)"
      by (auto simp: handleSendMessage_resolved_def dest: in_updateChat)
    from assms s have i: "(\<forall>m \<in> set (s_messages s). m_status m = Some Pending \<longrightarrow>
                m_id m = ctx_modelMessageId ctx \<and> s_id s = ctx_chatId ctx)"
      by (simp add: flightInvariant_def)
    then have "\<forall>m \<in> set (s_messages s'). m_status m \<noteq> Some Pending"
      by (auto simp: s' s_messages_applyPatch)
  }
  then show ?thesis
    by (simp add: flightInvariant_def handleSendMessage_finally_def)
qed

lemma flightInvariant_failed:
  assumes "flightInvariant (Some ctx) st"
  shows "flightInvariant None (handleSendMessage_finally (handleSendMessage_catch ctx st))"
proof -
  {
    fix s' assume "s' \<in> set (sessions (handleSendMessage_catch ctx st))"
    then obtain s where s: "s \<in> set (sessions st)"
      and s': "s' = (if s_id s = ctx_chatId ctx
          then applyPatch (messagesPatch (\<lambda>prev. filter (\<lambda>m. m_id m \<noteq> ctx_modelMessageId ctx)
             (map (\<lambda>msg. if m_id msg = ctx_userMessageId ctx
                          then msg\<lparr>m_status := Some Error\<rparr> else msg) prev))) s
          else s)"
      by (auto simp: handleSendMessage_catch_def dest: in_updateChat)
    from assms s have i: "(\<forall>m \<in> set (s_messages s). m_status m = Some Pending \<longrightarrow>
                m_id m = ctx_modelMessageId ctx \<and> s_id s = ctx_chatId ctx)"
      by (simp add: flightInvariant_def)
    then have "\<forall>m \<in> set (s_messages s'). m_status m \<noteq> Some Pending"
      by (auto simp: s')
  }
  then show ?thesis
    by (simp add: flightInvariant_def handleSendMessage_finally_def)
qed

lemma singleFlight_invariant: "singleFlight c st \<Longrightarrow> flightInvariant c st"
proof (induction rule: singleFlight.induct)
  case (idle st)
  then show ?case
    by (auto simp: flightInvariant_def pendingCount_def filter_empty_conv)
next
  case (send st messageText messageFile messageIdToRetry env ctx st')
  then show ?case by (blast intro: flightInvariant_begin)
next
  case (regenerate st env ctx st')
  then show ?case by (blast intro: flightInvariant_regenerate)
next
  case (chunk ctx st t)
  then show ?case by (blast intro: flightInvariant_chunk)
next
  case (resolved ctx st final g h now)
  then show ?case by (blast intro: flightInvariant_resolved)
next
  case (failed ctx st)
  then show ?case by (blast intro: flightInvariant_failed)
qed

text \<open>
  When a send starts only while no send is in flight, every session has at most one
  pending message in every state that is reached, and none once the send has settled.
\<close>

lemma singleFlight_at_most_one_pending:
  assumes "singleFlight c st" and "s \<in> set (sessions st)"
  shows "pendingCount s \<le> 1" and "c = None \<Longrightarrow> pendingCount s = 0"
proof -
  from assms(1) have inv: "flightInvariant c st" by (rule singleFlight_invariant)
  show "pendingCount s \<le> 1"
  proof (cases c)
    case None
    with inv assms(2) show ?thesis
      by (auto simp: flightInvariant_def pendingCount_def filter_empty_conv)
  next
    case (Some ctx)
    with inv assms(2) have
      a: "\<And>m. m \<in> set (s_messages s) \<Longrightarrow> m_status m = Some Pending \<Longrightarrow> m_id m = ctx_modelMessageId ctx"
      and b: "length (filter (\<lambda>m. m_id m = ctx_modelMessageId ctx) (s_messages s)) \<le> 1"
      by (auto simp: flightInvariant_def)
    from length_filter_le_of_imp [of "s_messages s" "\<lambda>m. m_status m = Some Pending"
        "\<lambda>m. m_id m = ctx_modelMessageId ctx"] a b
    show ?thesis by (simp add: pendingCount_def)
  qed
  show "pendingCount s = 0" if "c = None"
    using inv assms(2) that
    by (auto simp: flightInvariant_def pendingCount_def filter_empty_conv)
qed

lemma singleFlight_sendingState: "singleFlight (Some firstCtx) sendingState"
proof -
  have i: "singleFlight None idleState"
    by (rule singleFlight.idle) (simp_all add: idleState_def emptySession_def pendingCount_def)
  have b: "handleSendMessage_begin ''Muraho'' None None firstEnv idleState = (Some firstCtx, sendingState)"
    by (simp add: sendingState_eq)
       (simp add: orchestrator_defs idleState_def emptySession_def firstEnv_def firstCtx_def)
  have f: "freshModelId None firstEnv idleState"
    by (simp add: freshModelId_def allMessageIds_def idleState_def emptySession_def
          modelMessageId_def userMessageId_def truthy_def firstEnv_def)
  from i b f show ?thesis by (rule singleFlight.send)
qed

subsection \<open>Regenerate\<close>

lemma answeredState_eq:
  "answeredState =
     \<lparr>sessions = [\<lparr>s_id = ''c1'', s_title = ''New chat'', s_messages =
          [\<lparr>m_id = ''u1'', m_role = User, m_text = ''Muraho'', m_file = None, m_timestamp = 10,
             m_status = Some Complete, m_groundingChunks = None\<rparr>,
           \<lparr>m_id = ''m1'', m_role = Model, m_text = ''Yego'', m_file = None, m_timestamp = 15,
             m_status = Some Complete, m_groundingChunks = None\<rparr>],
          s_history = [''turn 1''], s_createdAt = 0\<rparr>, emptySession ''c2''],
      currentChatId = Some ''c1'', isSending = False, input = [], inputFile = None\<rparr>"
  by (simp add: answeredState_def orchestrator_defs idleState_def emptySession_def firstEnv_def)

text \<open>
  Claim C4 fails on \<^verbatim>\<open>handleRegenerate\<close>: it calls \<^verbatim>\<open>handleSendMessage\<close> without the
  id of the last user message, and so a second user message with the same text is
  appended before the new model message. A session with one question and its answer
  has two user messages after regenerate.
\<close>

theorem C4_regenerate_appends_a_user_message:
  "sessionMessages ''c1''
     (handleRegenerate secondEnv (SendMessageResolves [] ''Yego rwose'' None [''turn 2''])
        uninterrupted answeredState) =
     [\<lparr>m_id = ''u1'', m_role = User, m_text = ''Muraho'', m_file = None, m_timestamp = 10,
        m_status = Some Complete, m_groundingChunks = None\<rparr>,
      \<lparr>m_id = ''u2'', m_role = User, m_text = ''Muraho'', m_file = None, m_timestamp = 20,
        m_status = Some Complete, m_groundingChunks = None\<rparr>,
      \<lparr>m_id = ''m2'', m_role = Model, m_text = ''Yego rwose'', m_file = None, m_timestamp = 25,
        m_status = Some Complete, m_groundingChunks = None\<rparr>]
   \<and> length (filter (\<lambda>m. m_role m = User) (sessionMessages ''c1'' answeredState)) = 1
   \<and> length (filter (\<lambda>m. m_role m = User) (sessionMessages ''c1''
        (handleRegenerate secondEnv (SendMessageResolves [] ''Yego rwose'' None [''turn 2''])
           uninterrupted answeredState))) = 2"
  by (simp add: answeredState_eq orchestrator_defs sessionMessages_def emptySession_def
        secondEnv_def)

subsection \<open>A send that is answered, and retry\<close>

lemma sessionMessages_resolved_send:
  assumes acc: "\<not> sendRejected messageText messageFile st"
    and cid: "currentChatId st = Some cid"
    and quiet: "\<And>k s. sessionMessages cid (others k s) = sessionMessages cid s"
    and fresh: "modelMessageId env \<notin> m_id ` set (sessionMessages cid st)"
    and neq: "modelMessageId env \<noteq> userMessageId messageIdToRetry env"
  shows "sessionMessages cid (handleSendMessage messageText messageFile messageIdToRetry env
            (SendMessageResolves chunks final g h) others st) =
     keptOnSend messageIdToRetry (sessionMessages cid st)
     @ [userMessage messageText messageFile messageIdToRetry env,
        (modelMessage env)\<lparr>m_text := final, m_status := Some Complete,
                            m_timestamp := now_done env, m_groundingChunks := g\<rparr>]"
proof -
  define K where "K = keptOnSend messageIdToRetry (sessionMessages cid st)"
  define ctx where "ctx = \<lparr>ctx_chatId = cid, ctx_userMessageId = userMessageId messageIdToRetry env,
                           ctx_modelMessageId = modelMessageId env\<rparr>"
  define st1 where "st1 = snd (handleSendMessage_begin messageText messageFile messageIdToRetry env st)"
  have K: "modelMessageId env \<notin> m_id ` set K"
    using fresh keptOnSend_ids [of messageIdToRetry "sessionMessages cid st"] by (auto simp: K_def)
  have m1: "sessionMessages cid st1 =
      K @ [userMessage messageText messageFile messageIdToRetry env, modelMessage env]"
    unfolding st1_def K_def
    by (rule sessionMessages_handleSendMessage_begin [OF acc cid])
  have run: "handleSendMessage messageText messageFile messageIdToRetry env
       (SendMessageResolves chunks final g h) others st =
      handleSendMessage_settle ctx env (SendMessageResolves chunks final g h) others st1"
    using handleSendMessage_accepted [OF acc, of messageIdToRetry env] cid
    by (simp add: ctx_def st1_def)
  have c: "ctx_chatId ctx = cid" "ctx_modelMessageId ctx = modelMessageId env"
    by (simp_all add: ctx_def)
  have ids: "m_id (userMessage messageText messageFile messageIdToRetry env)
        = userMessageId messageIdToRetry env"
      "m_id (modelMessage env) = modelMessageId env"
    by (simp_all add: userMessage_def modelMessage_def)
  have "sessionMessages cid
      (handleSendMessage_settle ctx env (SendMessageResolves chunks final g h) others st1) =
      K @ [userMessage messageText messageFile messageIdToRetry env,
        (modelMessage env)\<lparr>m_text := final, m_status := Some Complete,
                            m_timestamp := now_done env, m_groundingChunks := g\<rparr>]"
    using K neq
    by (simp add: handleSendMessage_settle_def sessionMessages_handleSendMessage_resolved c m1
          sessionMessages_deliverChunks [of cid others, OF quiet] quiet map_other_id ids)
  with run show ?thesis by (simp add: K_def)
qed

lemma find_filter_conv:
  "find P xs = (case filter P xs of [] \<Rightarrow> None | x # _ \<Rightarrow> Some x)"
  by (induction xs) simp_all

lemma filter_complement_length:
  assumes "filter (\<lambda>x. m_id x = i) ms = [m]" and "m_role m = User"
  shows "length (filter (\<lambda>x. m_role x = User) (filter (\<lambda>x. m_id x \<noteq> i) ms)) + 1
       = length (filter (\<lambda>x. m_role x = User) ms)"
  using assms
proof (induction ms)
  case Nil
  then show ?case by simp
next
  case (Cons a ms)
  show ?case
  proof (cases "m_id a = i")
    case True
    with Cons.prems have a: "a = m" and none: "filter (\<lambda>x. m_id x = i) ms = []"
      by simp_all
    from none have "filter (\<lambda>x. m_id x \<noteq> i) ms = ms"
      by (simp add: filter_empty_conv filter_id_conv)
    with True a Cons.prems(2) show ?thesis by simp
  next
    case False
    with Cons show ?thesis by simp
  qed
qed

lemma filter_last_only:
  assumes "filter (\<lambda>x. m_id x = i) ms = [m]"
  shows "(filter (\<lambda>x. m_id x \<noteq> i) ms = butlast ms) = (last ms = m)"
proof -
  from assms have ne: "ms \<noteq> []" by auto
  then have ms: "butlast ms @ [last ms] = ms" by simp
  from assms have "m \<in> set (filter (\<lambda>x. m_id x = i) ms)" by simp
  then have mi: "m_id m = i" by simp
  have "filter (\<lambda>x. m_id x = i) (butlast ms @ [last ms]) = [m]"
    by (simp only: ms assms)
  then have split: "filter (\<lambda>x. m_id x = i) (butlast ms) @ filter (\<lambda>x. m_id x = i) [last ms] = [m]"
    by (simp only: filter_append)
  show ?thesis
  proof
    assume eq: "filter (\<lambda>x. m_id x \<noteq> i) ms = butlast ms"
    have "\<forall>x \<in> set (filter (\<lambda>x. m_id x \<noteq> i) ms). m_id x \<noteq> i" by simp
    then have "\<forall>x \<in> set (butlast ms). m_id x \<noteq> i" unfolding eq .
    then have "filter (\<lambda>x. m_id x = i) (butlast ms) = []"
      by (simp add: filter_empty_conv)
    with split have "filter (\<lambda>x. m_id x = i) [last ms] = [m]" by simp
    then show "last ms = m" by (simp split: if_splits)
  next
    assume l: "last ms = m"
    from split have "filter (\<lambda>x. m_id x = i) (butlast ms) @ [m] = [m]"
      by (simp add: l mi)
    then have "filter (\<lambda>x. m_id x = i) (butlast ms) = []" by simp
    then have "filter (\<lambda>x. m_id x \<noteq> i) (butlast ms) = butlast ms"
      by (simp add: filter_empty_conv filter_id_conv)
    then have f: "filter (\<lambda>x. m_id x \<noteq> i) (butlast ms) @ filter (\<lambda>x. m_id x \<noteq> i) [last ms]
        = butlast ms"
      by (simp add: l mi)
    have "filter (\<lambda>x. m_id x \<noteq> i) ms = filter (\<lambda>x. m_id x \<noteq> i) (butlast ms @ [last ms])"
      by (simp only: ms)
    also have "\<dots> = filter (\<lambda>x. m_id x \<noteq> i) (butlast ms) @ filter (\<lambda>x. m_id x \<noteq> i) [last ms]"
      by (simp only: filter_append)
    finally show "filter (\<lambda>x. m_id x \<noteq> i) ms = butlast ms"
      by (simp only: f)
  qed
qed

lemma length_filter_one:
  assumes "filter (\<lambda>x. m_id x = i) ms = [m]"
  shows "length (filter (\<lambda>x. m_id x \<noteq> i) ms) + 1 = length ms"
proof -
  have a: "length (filter (\<lambda>x. m_id x = i) ms) = 1"
    unfolding assms by simp
  have b: "length (filter (\<lambda>x. m_id x = i) ms) + length (filter (\<lambda>x. m_id x \<noteq> i) ms) = length ms"
    by (rule sum_length_filter_compl)
  from a b show ?thesis by arith
qed

lemma handleRetry_begin_found:
  assumes cid: "currentChatId st = Some cid"
    and one: "filter (\<lambda>x. m_id x = i) (sessionMessages cid st) = [m]"
  shows "handleRetry_begin i env st =
           handleSendMessage_begin (m_text m) (m_file m) (Some i) env st"
proof -
  from one have "sessionMessages cid st \<noteq> []" by auto
  then obtain cs where cs: "find (\<lambda>s. s_id s = cid) (sessions st) = Some cs"
    and ms: "sessionMessages cid st = s_messages cs"
    by (auto simp: sessionMessages_def split: option.splits)
  from one ms have "find (\<lambda>x. m_id x = i) (s_messages cs) = Some m"
    by (simp add: find_filter_conv)
  with cs cid show ?thesis
    by (simp add: handleRetry_begin_def currentSession_def)
qed

lemma followedState_eq:
  "followedState =
     \<lparr>sessions = [\<lparr>s_id = ''c1'', s_title = ''New chat'', s_messages =
          [\<lparr>m_id = ''u1'', m_role = User, m_text = ''Muraho'', m_file = None, m_timestamp = 10,
             m_status = Some Error, m_groundingChunks = None\<rparr>,
           \<lparr>m_id = ''u2'', m_role = User, m_text = ''Amakuru?'', m_file = None, m_timestamp = 20,
             m_status = Some Complete, m_groundingChunks = None\<rparr>,
           \<lparr>m_id = ''m2'', m_role = Model, m_text = ''Ni meza'', m_file = None, m_timestamp = 25,
             m_status = Some Complete, m_groundingChunks = None\<rparr>],
          s_history = [''turn 1''], s_createdAt = 0\<rparr>, emptySession ''c2''],
      currentChatId = Some ''c1'', isSending = False, input = [], inputFile = None\<rparr>"
  by (simp add: followedState_def failedState_eq orchestrator_defs emptySession_def secondEnv_def)

text \<open>
  Claim C5, as amended. Let the current session hold exactly one message with id \<open>i\<close>,
  a user message that can be sent (a text that is not blank, or a file), as a failed
  message is; let the id drawn for the placeholder be new, and neither \<open>i\<close> nor the
  session's id be the empty string. \<^verbatim>\<open>handleRetry(i)\<close>
  takes the message out of the list and appends, at the end, a user message with the
  same id, text and file (status complete, the time of the retry) and after it a new
  pending model message; when the remote call resolves, and the other handlers have
  left the session's messages alone, that model message holds the reply. So the message
  is not duplicated: the number of user messages is what it was, the id \<open>i\<close> is in the
  session exactly once, and the list is one longer. The new user message is the last
  but one of the list; it stands where the failed message stood exactly when that was
  the last message of the session.
\<close>

theorem C5_retry_reuses_the_message_id:
  assumes "currentChatId st = Some cid" and "cid \<noteq> []"
    and "filter (\<lambda>x. m_id x = i) (sessionMessages cid st) = [m]"
    and "m_role m = User" and "i \<noteq> []"
    and "trim (m_text m) \<noteq> [] \<or> m_file m \<noteq> None"
    and "modelMessageId env \<notin> m_id ` set (sessionMessages cid st)"
  shows "sessionMessages cid (snd (handleRetry_begin i env st)) =
           filter (\<lambda>x. m_id x \<noteq> i) (sessionMessages cid st)
           @ [m\<lparr>m_timestamp := now_user env, m_status := Some Complete, m_groundingChunks := None\<rparr>,
              modelMessage env]
       \<and> ((\<forall>k s. sessionMessages cid (others k s) = sessionMessages cid s) \<longrightarrow>
            sessionMessages cid (handleRetry i env (SendMessageResolves chunks final g h) others st) =
              filter (\<lambda>x. m_id x \<noteq> i) (sessionMessages cid st)
              @ [m\<lparr>m_timestamp := now_user env, m_status := Some Complete, m_groundingChunks := None\<rparr>,
                 (modelMessage env)\<lparr>m_text := final, m_status := Some Complete,
                                     m_timestamp := now_done env, m_groundingChunks := g\<rparr>])
       \<and> length (filter (\<lambda>x. m_role x = User) (sessionMessages cid (snd (handleRetry_begin i env st))))
           = length (filter (\<lambda>x. m_role x = User) (sessionMessages cid st))
       \<and> length (filter (\<lambda>x. m_id x = i) (sessionMessages cid (snd (handleRetry_begin i env st)))) = 1
       \<and> length (sessionMessages cid (snd (handleRetry_begin i env st)))
           = length (sessionMessages cid st) + 1
       \<and> sessionMessages cid (snd (handleRetry_begin i env st)) ! (length (sessionMessages cid st) - 1)
           = m\<lparr>m_timestamp := now_user env, m_status := Some Complete, m_groundingChunks := None\<rparr>
       \<and> (take (length (sessionMessages cid st) - 1) (sessionMessages cid (snd (handleRetry_begin i env st)))
            = butlast (sessionMessages cid st))
         = (last (sessionMessages cid st) = m)"
proof -
  define ms where "ms = sessionMessages cid st"
  define u where "u = m\<lparr>m_timestamp := now_user env, m_status := Some Complete, m_groundingChunks := None\<rparr>"
  define F where "F = filter (\<lambda>x. m_id x \<noteq> i) ms"
  from assms(3) have "m \<in> set (filter (\<lambda>x. m_id x = i) (sessionMessages cid st))"
    by simp
  then have mi: "m_id m = i" and mem: "m \<in> set (sessionMessages cid st)"
    by simp_all
  from assms(3) have "sessionMessages cid st \<noteq> []" by auto
  then have ex: "find (\<lambda>s. s_id s = cid) (sessions st) \<noteq> None"
    by (auto simp: sessionMessages_def split: option.splits)
  have acc: "\<not> sendRejected (m_text m) (m_file m) st"
    using assms(1,2,6) ex by (auto simp: sendRejected_def truthy_def currentSession_def)
  have t: "truthy (Some i)" using assms(5) by (simp add: truthy_def)
  have um: "userMessage (m_text m) (m_file m) (Some i) env = u"
    using t mi assms(4) by (simp add: userMessage_def userMessageId_def u_def)
  have neq: "modelMessageId env \<noteq> userMessageId (Some i) env"
    using assms(7) mem mi t by (auto simp: userMessageId_def)
  have kept: "keptOnSend (Some i) xs = filter (\<lambda>x. m_id x \<noteq> i) xs" for xs
    using t by (simp add: keptOnSend_def)
  have b: "handleRetry_begin i env st = handleSendMessage_begin (m_text m) (m_file m) (Some i) env st"
    by (rule handleRetry_begin_found [OF assms(1) assms(3)])
  have r: "handleRetry i env remote others st =
      handleSendMessage (m_text m) (m_file m) (Some i) env remote others st"
    for remote
    by (simp add: handleRetry_def handleSendMessage_def b)
  have 1: "sessionMessages cid (snd (handleRetry_begin i env st)) = F @ [u, modelMessage env]"
    using sessionMessages_handleSendMessage_begin [OF acc assms(1), of "Some i" env]
    by (simp add: b um kept ms_def F_def)
  have 2: "sessionMessages cid (handleRetry i env (SendMessageResolves chunks final g h) others st) =
      F @ [u, (modelMessage env)\<lparr>m_text := final, m_status := Some Complete,
                                  m_timestamp := now_done env, m_groundingChunks := g\<rparr>]"
    if quiet: "\<forall>k s. sessionMessages cid (others k s) = sessionMessages cid s"
  proof -
    from quiet have q: "\<And>k s. sessionMessages cid (others k s) = sessionMessages cid s"
      by simp
    from sessionMessages_resolved_send [OF acc assms(1) q assms(7) neq, of chunks final g h]
    show ?thesis by (simp add: r um kept ms_def F_def)
  qed
  have ur: "m_role u = User" "m_id u = i" by (simp_all add: u_def assms(4) mi)
  have mm: "m_role (modelMessage env) = Model" "m_id (modelMessage env) \<noteq> i"
    using assms(7) mem mi by (auto simp: modelMessage_def)
  have 3: "length (filter (\<lambda>x. m_role x = User) (sessionMessages cid (snd (handleRetry_begin i env st))))
      = length (filter (\<lambda>x. m_role x = User) ms)"
    using filter_complement_length [OF assms(3) assms(4)] ur mm by (simp add: 1 ms_def F_def)
  have 4: "length (filter (\<lambda>x. m_id x = i) (sessionMessages cid (snd (handleRetry_begin i env st)))) = 1"
    using ur mm by (simp add: 1 F_def)
  have lF: "length F + 1 = length ms"
    using length_filter_one [OF assms(3)] by (simp add: F_def ms_def)
  then have lF': "length ms - Suc 0 = length F" by simp
  have 5: "length (sessionMessages cid (snd (handleRetry_begin i env st))) = length ms + 1"
    using lF by (simp add: 1)
  have 6: "sessionMessages cid (snd (handleRetry_begin i env st)) ! (length ms - 1) = u"
    by (simp add: 1 lF')
  have 7: "(take (length ms - 1) (sessionMessages cid (snd (handleRetry_begin i env st))) = butlast ms)
      = (last ms = m)"
  proof -
    have "take (length ms - 1) (sessionMessages cid (snd (handleRetry_begin i env st))) = F"
      by (simp add: 1 lF')
    with filter_last_only [OF assms(3)] show ?thesis
      by (simp add: F_def ms_def)
  qed
  from 1 2 3 4 5 6 7 show ?thesis
    unfolding ms_def u_def F_def by blast
qed

theorem C5_retry_witness:
  "sessionMessages ''c1'' failedState =
     [\<lparr>m_id = ''u1'', m_role = User, m_text = ''Muraho'', m_file = None, m_timestamp = 10,
        m_status = Some Error, m_groundingChunks = None\<rparr>]
   \<and> sessionMessages ''c1''
        (handleRetry ''u1'' secondEnv (SendMessageResolves [''Ye''] ''Yego'' None [''turn 1''])
           uninterrupted failedState) =
     [\<lparr>m_id = ''u1'', m_role = User, m_text = ''Muraho'', m_file = None, m_timestamp = 20,
        m_status = Some Complete, m_groundingChunks = None\<rparr>,
      \<lparr>m_id = ''m2'', m_role = Model, m_text = ''Yego'', m_file = None, m_timestamp = 25,
        m_status = Some Complete, m_groundingChunks = None\<rparr>]
   \<and> length (filter (\<lambda>x. m_role x = User)
        (sessionMessages ''c1'' (snd (handleRetry_begin ''u1'' secondEnv failedState)))) = 1"
proof -
  define m where "m = \<lparr>m_id = ''u1'', m_role = User, m_text = ''Muraho'', m_file = None,
      m_timestamp = 10, m_status = Some Error, m_groundingChunks = None\<rparr>"
  have ms: "sessionMessages ''c1'' failedState = [m]"
    by (simp add: failedState_eq sessionMessages_def m_def)
  have a: "currentChatId failedState = Some ''c1''" by (simp add: failedState_eq)
  have b: "''c1'' \<noteq> []" by simp
  have c: "filter (\<lambda>x. m_id x = ''u1'') (sessionMessages ''c1'' failedState) = [m]"
    by (simp add: ms) (simp add: m_def)
  have d: "m_role m = User" by (simp add: m_def)
  have e: "''u1'' \<noteq> []" by simp
  have f: "trim (m_text m) \<noteq> [] \<or> m_file m \<noteq> None"
    by (simp add: m_def trim_def isWhiteSpace_def)
  have g: "modelMessageId secondEnv \<notin> m_id ` set (sessionMessages ''c1'' failedState)"
    by (simp add: ms) (simp add: m_def modelMessageId_def secondEnv_def)
  from C5_retry_reuses_the_message_id [OF a b c d e f g,
      of uninterrupted "[''Ye'']" "''Yego''" None "[''turn 1'']"]
  show ?thesis
    by (simp add: ms uninterrupted_def)
       (simp add: m_def modelMessage_def modelMessageId_def secondEnv_def)
qed

text \<open>
  The claim as it is written fails when the failed message is not the last one of the
  session. After a send that failed (\<open>u1\<close>) and a later one that was answered (\<open>u2\<close>,
  \<open>m2\<close>), a retry of the first takes \<open>u1\<close> from the head of the list and appends it
  behind \<open>m2\<close>: the message is not replaced where it stood.
\<close>

theorem C5_counterexample:
  "map m_id (sessionMessages ''c1'' followedState) = [''u1'', ''u2'', ''m2'']
   \<and> m_status (sessionMessages ''c1'' followedState ! 0) = Some Error
   \<and> sessionMessages ''c1'' (snd (handleRetry_begin ''u1'' thirdEnv followedState)) =
       [\<lparr>m_id = ''u2'', m_role = User, m_text = ''Amakuru?'', m_file = None, m_timestamp = 20,
          m_status = Some Complete, m_groundingChunks = None\<rparr>,
        \<lparr>m_id = ''m2'', m_role = Model, m_text = ''Ni meza'', m_file = None, m_timestamp = 25,
          m_status = Some Complete, m_groundingChunks = None\<rparr>,
        \<lparr>m_id = ''u1'', m_role = User, m_text = ''Muraho'', m_file = None, m_timestamp = 30,
          m_status = Some Complete, m_groundingChunks = None\<rparr>,
        \<lparr>m_id = ''m3'', m_role = Model, m_text = [], m_file = None, m_timestamp = 31,
          m_status = Some Pending, m_groundingChunks = None\<rparr>]
   \<and> map m_id (sessionMessages ''c1''
        (handleRetry ''u1'' thirdEnv (SendMessageResolves [] ''Yego'' None [''turn 2''])
           uninterrupted followedState)) = [''u2'', ''m2'', ''u1'', ''m3'']"
  by (simp add: followedState_eq orchestrator_defs sessionMessages_def emptySession_def
        thirdEnv_def)

subsection \<open>A send without a current chat\<close>

text \<open>
  Claim C9. When no chat is selected (\<^verbatim>\<open>currentChatId\<close> is null, or no session has
  that id), a send with any text, file and retry id is a no-op: no send is started and
  the whole state, and so the session list, every message list and the in-flight flag,
  is what it was.
\<close>

theorem C9_send_without_chat_is_noop:
  assumes "currentChatId st = None \<or> currentSession st = None"
  shows "handleSendMessage_begin messageText messageFile messageIdToRetry env st = (None, st)
       \<and> handleSendMessage messageText messageFile messageIdToRetry env remote others st = st
       \<and> sessions (handleSendMessage messageText messageFile messageIdToRetry env remote others st)
           = sessions st
       \<and> isSending (handleSendMessage messageText messageFile messageIdToRetry env remote others st)
           = isSending st"
proof -
  from assms have "sendRejected messageText messageFile st"
    by (auto simp: sendRejected_def truthy_def)
  then have "handleSendMessage_begin messageText messageFile messageIdToRetry env st = (None, st)"
    by (simp add: handleSendMessage_begin_def)
  then show ?thesis
    by (simp add: handleSendMessage_def)
qed

theorem C9_send_without_chat_witness:
  "handleSendMessage ''Muraho'' None None
     \<lparr>uuid_user = ''u1'', now_user = 1, uuid_model = ''m1'', now_model = 1, now_done = 2\<rparr>
     (SendMessageResolves [] ''Yego'' None []) uninterrupted
     \<lparr>sessions = [\<lparr>s_id = ''a'', s_title = ''t'', s_messages = [], s_history = [], s_createdAt = 0\<rparr>],
      currentChatId = None, isSending = False, input = ''Muraho'', inputFile = None\<rparr>
   = \<lparr>sessions = [\<lparr>s_id = ''a'', s_title = ''t'', s_messages = [], s_history = [], s_createdAt = 0\<rparr>],
      currentChatId = None, isSending = False, input = ''Muraho'', inputFile = None\<rparr>"
  using C9_send_without_chat_is_noop
    [of "\<lparr>sessions = [\<lparr>s_id = ''a'', s_title = ''t'', s_messages = [], s_history = [], s_createdAt = 0\<rparr>],
      currentChatId = None, isSending = False, input = ''Muraho'', inputFile = None\<rparr>"
     "''Muraho''" None None
     "\<lparr>uuid_user = ''u1'', now_user = 1, uuid_model = ''m1'', now_model = 1, now_done = 2\<rparr>"
     "SendMessageResolves [] ''Yego'' None []" uninterrupted]
  by simp

section \<open>Properties of the chat history hook\<close>

lemma appendToSessions_absent:
  "sessionId \<notin> hs_id ` set ss \<Longrightarrow> appendToSessions sessionId newMessage clock k ss = ss"
  by (induction ss) auto

lemma length_appendToSessions [simp]:
  "length (appendToSessions sessionId newMessage clock k ss) = length ss"
  by (induction ss arbitrary: k) auto

lemma nth_appendToSessions:
  "i < length ss \<Longrightarrow>
   appendToSessions sessionId newMessage clock k ss ! i =
     (if hs_id (ss ! i) = sessionId
      then (ss ! i)\<lparr>hs_messages := hs_messages (ss ! i) @ [newMessage],
                    hs_updatedAt := clock (k + length (filter (\<lambda>s. hs_id s = sessionId) (take i ss)))\<rparr>
      else ss ! i)"
proof (induction ss arbitrary: i k)
  case Nil
  then show ?case by simp
next
  case (Cons s ss)
  show ?case
  proof (cases i)
    case 0
    then show ?thesis by simp
  next
    case (Suc j)
    with Cons.prems have "j < length ss" by simp
    from Cons.IH [OF this] Suc show ?thesis by simp
  qed
qed

text \<open>
  Claim C10. \<^verbatim>\<open>addMessage\<close> with an id that no session has leaves the state as it
  is. In any case the list keeps its length and order and the current session id stays;
  a session with the id gets the one new message appended to its messages and its
  \<^verbatim>\<open>updatedAt\<close> set to the clock's reading, and keeps its other fields; every other
  session is unchanged.
\<close>

theorem C10_addMessage_frame:
  "(sessionId \<notin> hs_id ` set (h_sessions st) \<longrightarrow>
      addMessage sessionId message newId now clock st = st)
   \<and> length (h_sessions (addMessage sessionId message newId now clock st)) = length (h_sessions st)
   \<and> h_currentSessionId (addMessage sessionId message newId now clock st) = h_currentSessionId st
   \<and> (\<forall>i < length (h_sessions st).
        h_sessions (addMessage sessionId message newId now clock st) ! i =
          (if hs_id (h_sessions st ! i) = sessionId
           then (h_sessions st ! i)
                  \<lparr>hs_messages := hs_messages (h_sessions st ! i) @
                     [\<lparr>hm_id = newId, hm_role = mi_role message,
                        hm_content = mi_content message, hm_timestamp = now\<rparr>],
                   hs_updatedAt := clock (length (filter (\<lambda>s. hs_id s = sessionId)
                                                    (take i (h_sessions st))))\<rparr>
           else h_sessions st ! i))"
  by (simp add: addMessage_def appendToSessions_absent nth_appendToSessions)

theorem C10_addMessage_witness:
  "addMessage ''s3'' \<lparr>mi_role = HistoryUser, mi_content = ''Muraho''\<rparr> ''msg_1'' 30 (\<lambda>k. 31)
     twoSessions = twoSessions
   \<and> h_sessions (addMessage ''s2'' \<lparr>mi_role = HistoryUser, mi_content = ''Muraho''\<rparr> ''msg_1'' 30
        (\<lambda>k. 31) twoSessions) ! 1 =
       \<lparr>hs_id = ''s2'',
        hs_messages = [\<lparr>hm_id = ''msg_1'', hm_role = HistoryUser, hm_content = ''Muraho'',
                         hm_timestamp = 30\<rparr>],
        hs_createdAt = 2, hs_updatedAt = 31\<rparr>
   \<and> h_sessions (addMessage ''s2'' \<lparr>mi_role = HistoryUser, mi_content = ''Muraho''\<rparr> ''msg_1'' 30
        (\<lambda>k. 31) twoSessions) ! 0 =
       \<lparr>hs_id = ''s1'', hs_messages = [], hs_createdAt = 1, hs_updatedAt = 1\<rparr>"
  using C10_addMessage_frame [of "''s3''" twoSessions
      "\<lparr>mi_role = HistoryUser, mi_content = ''Muraho''\<rparr>" "''msg_1''" 30 "\<lambda>k. 31"]
    C10_addMessage_frame [of "''s2''" twoSessions
      "\<lparr>mi_role = HistoryUser, mi_content = ''Muraho''\<rparr>" "''msg_1''" 30 "\<lambda>k. 31"]
  by (simp add: twoSessions_def)

subsection \<open>Persistence\<close>

lemma loadEffect_returns: "\<exists>st'. loadEffect JSON storage st = Inr st'"
  by (simp add: loadEffect_def tryCatch_def split: sum.splits)

lemma loadEffect_failed: "loadFails JSON storage \<Longrightarrow> loadEffect JSON storage st = Inr st"
  by (auto simp: loadEffect_def loadFails_def tryCatch_def truthy_def isl_def
        split: sum.splits option.splits)

lemma saveEffect_returns: "\<exists>storage'. saveEffect JSON (st, storage) = Inr (st, storage')"
  by (simp add: saveEffect_def tryCatch_def split: sum.splits)

lemma saveEffect_failed:
  "saveFails JSON st storage \<Longrightarrow> saveEffect JSON (st, storage) = Inr (st, storage)"
  by (auto simp: saveEffect_def saveFails_def tryCatch_def isl_def split: sum.splits)

text \<open>
  The exceptions of the storage are caught: neither effect throws, whatever the storage
  and the runtime's \<^verbatim>\<open>JSON\<close> do. A load that fails (storage unreadable, no entry,
  an empty one, an entry that \<^verbatim>\<open>JSON.parse\<close> rejects) leaves the state as it is,
  which on mount is the empty session list. A save never touches the sessions in memory,
  and a save that fails leaves the storage as it is too.
\<close>

lemma storage_exceptions_are_caught:
  "\<not> isl (loadEffect JSON storage st)
   \<and> (loadFails JSON storage \<longrightarrow> loadEffect JSON storage st = Inr st)
   \<and> (loadFails JSON storage \<longrightarrow>
        loadEffect JSON storage initialStoreState = Inr initialStoreState
        \<and> st_sessions (initialStoreState :: 'num StoreState) = JsArray [])
   \<and> \<not> isl (saveEffect JSON (st, storage))
   \<and> (\<exists>storage'. saveEffect JSON (st, storage) = Inr (st, storage'))
   \<and> (saveFails JSON st storage \<longrightarrow> saveEffect JSON (st, storage) = Inr (st, storage))"
proof -
  obtain st' where l: "loadEffect JSON storage st = Inr st'"
    using loadEffect_returns by blast
  obtain storage' where s: "saveEffect JSON (st, storage) = Inr (st, storage')"
    using saveEffect_returns by blast
  from l s show ?thesis
    by (auto simp: loadEffect_failed saveEffect_failed initialStoreState_def)
qed

text \<open>
  What the two effects add to the runtime's \<^verbatim>\<open>JSON\<close>: when the write is taken, and
  \<^verbatim>\<open>JSON.parse\<close> gives back the value whose text it is handed, a load on the next
  mount restores the sessions that were saved. Whether \<^verbatim>\<open>JSON.parse\<close> does give back
  the value is a matter of the runtime: of how it writes and reads the numbers
  (binary floating point) and the strings.
\<close>

lemma save_then_load:
  assumes "stringify JSON (st_sessions st) = Inr text" and "text \<noteq> []"
    and "parse JSON text = Inr (st_sessions st)"
    and "accepts storage STORAGE_KEY text" and "readable storage"
  shows "\<exists>storage'. saveEffect JSON (st, storage) = Inr (st, storage')
           \<and> loadEffect JSON storage' initialStoreState
               = Inr (initialStoreState\<lparr>st_sessions := st_sessions st\<rparr>)"
  using assms
  by (simp add: saveEffect_def loadEffect_def tryCatch_def setItem_def getItem_def truthy_def)

lemma getSession_not_array:
  assumes "\<And>elements. st_sessions st \<noteq> JsArray elements"
  shows "getSession sessionId st = Inl TypeError"
  using assms by (cases "st_sessions st") (auto simp: getSession_def)

text \<open>On an array without \<^verbatim>\<open>null\<close> among its elements, \<^verbatim>\<open>getSession\<close> does not throw.\<close>

lemma getSession_array_of_objects:
  assumes "st_sessions st = JsArray elements"
    and "\<And>e. e \<in> set elements \<Longrightarrow> e \<noteq> JsNull"
  shows "\<not> isl (getSession sessionId st)"
proof -
  have "\<forall>e \<in> set es. e \<noteq> JsNull \<Longrightarrow> \<not> isl (findSession sessionId es)" for es
  proof (induction es)
    case Nil
    then show ?case by simp
  next
    case (Cons e es)
    then have "e \<noteq> JsNull" by simp
    then have "\<not> isl (idOf e)" by (cases e) (simp_all add: idOf_def)
    with Cons show ?case by (auto simp: isl_def split: sum.splits)
  qed
  from this [of elements] assms(2) have "\<not> isl (findSession sessionId elements)"
    by blast
  with assms(1) show ?thesis by (simp add: getSession_def)
qed

text \<open>
  Claim C8 fails on the load effect. A stored entry that is corrupt and still a text
  that \<^verbatim>\<open>JSON.parse\<close> accepts is not caught: whatever value \<^verbatim>\<open>JSON.parse\<close> returns
  for the entry, the load puts it where the session list belongs, since no line between
  the call and \<^verbatim>\<open>setSessions(parsed)\<close> looks at it; and when that value is not an
  array, the sessions are not the empty list, and \<^verbatim>\<open>getSession\<close> throws a TypeError
  at its caller.
\<close>

theorem C8_misshapen_entry_is_installed:
  assumes "getItem storage STORAGE_KEY = Inr (Some entry)" and "entry \<noteq> []"
    and "parse JSON entry = Inr v"
  shows "loadEffect JSON storage st = Inr (st\<lparr>st_sessions := v\<rparr>)
       \<and> ((\<forall>elements. v \<noteq> JsArray elements) \<longrightarrow>
            st_sessions (st\<lparr>st_sessions := v\<rparr>) \<noteq> JsArray []
            \<and> getSession sessionId (st\<lparr>st_sessions := v\<rparr>) = Inl TypeError)"
proof -
  have "loadEffect JSON storage st = Inr (st\<lparr>st_sessions := v\<rparr>)"
    using assms by (simp add: loadEffect_def tryCatch_def truthy_def)
  moreover have "getSession sessionId (st\<lparr>st_sessions := v\<rparr>) = Inl TypeError"
    if "\<forall>elements. v \<noteq> JsArray elements"
    using that by (intro getSession_not_array) simp
  ultimately show ?thesis by simp
qed

text \<open>
  So it is with the entry \<^verbatim>\<open>null\<close> and with an entry that holds an object. (With the
  entry that is cut off, which \<^verbatim>\<open>JSON.parse\<close> rejects, the load leaves the empty
  list, and \<^verbatim>\<open>getSession\<close> returns \<^verbatim>\<open>undefined\<close>.)
\<close>

theorem C8_null_entry_witness:
  "loadEffect scenarioJson nullStorage initialStoreState
     = Inr \<lparr>st_sessions = JsNull, st_currentSessionId = None\<rparr>
   \<and> getSession ''s1'' (\<lparr>st_sessions = JsNull, st_currentSessionId = None\<rparr> :: int StoreState)
     = Inl TypeError
   \<and> loadEffect scenarioJson objectStorage initialStoreState
     = Inr \<lparr>st_sessions = JsObject [], st_currentSessionId = None\<rparr>
   \<and> getSession ''s1'' (\<lparr>st_sessions = JsObject [], st_currentSessionId = None\<rparr> :: int StoreState)
     = Inl TypeError
   \<and> loadEffect scenarioJson truncatedStorage initialStoreState
     = Inr \<lparr>st_sessions = JsArray [], st_currentSessionId = None\<rparr>
   \<and> getSession ''s1'' (\<lparr>st_sessions = JsArray [], st_currentSessionId = None\<rparr> :: int StoreState)
     = Inr None"
proof -
  have n: "getItem nullStorage STORAGE_KEY = Inr (Some ''null'')"
    and o: "getItem objectStorage STORAGE_KEY = Inr (Some ''{}'')"
    by (simp_all add: getItem_def STORAGE_KEY_def nullStorage_def objectStorage_def storageWith_def)
  have pn: "parse scenarioJson ''null'' = Inr JsNull"
    and po: "parse scenarioJson ''{}'' = Inr (JsObject [])"
    by (simp_all add: scenarioJson_def)
  have e: "''null'' \<noteq> []" "''{}'' \<noteq> []" by simp_all
  note a = C8_misshapen_entry_is_installed [OF n e(1) pn, of initialStoreState "''s1''"]
  note b = C8_misshapen_entry_is_installed [OF o e(2) po, of initialStoreState "''s1''"]
  have t: "loadEffect scenarioJson truncatedStorage initialStoreState
        = Inr \<lparr>st_sessions = JsArray [], st_currentSessionId = None\<rparr>"
    by (simp add: loadEffect_def tryCatch_def truthy_def getItem_def STORAGE_KEY_def
          truncatedStorage_def storageWith_def scenarioJson_def initialStoreState_def)
  have g: "getSession ''s1'' (\<lparr>st_sessions = JsArray [], st_currentSessionId = None\<rparr> :: int StoreState)
        = Inr None"
    by (simp add: getSession_def)
  from a b t g show ?thesis
    by (simp add: initialStoreState_def)
qed

end
